theory Spec2Isabelle
  imports Complex_Main
begin

section \<open>The atmosphere model of \<^verbatim>\<open>pyNastran/utils/atmosphere2.py\<close>\<close>

text \<open>
  The module is a collection of stateless numeric functions. A Python float is modelled
  as a real number: the four arithmetic operations are exact (no rounding, no \<^verbatim>\<open>inf\<close>, no
  \<^verbatim>\<open>nan\<close>), while the operations that raise on a double, \<^verbatim>\<open>math.exp\<close> and \<^verbatim>\<open>**\<close>, keep
  their range: a result beyond the largest double raises \<open>OverflowError\<close> and a result
  too small for a double is zero (\<open>float_result\<close>). Whatever the source does besides
  returning a number is explicit:
  \<^item> an exception is a value \<open>Inl e\<close> of the result type \<open>error + real\<close>;
  \<^item> text written to the standard streams (the warning of Sutherland's law, the
    iteration notice of the solvers, the debug prints) is a list of \<open>diag\<close> values
    returned next to the result, in the order written;
  \<^item> a float division raises \<open>ZeroDivisionError\<close> on a zero divisor and \<open>math.log\<close>
    raises \<open>ValueError\<close> outside its domain;
  \<^item> a name that the module never binds raises \<open>NameError\<close> when it is looked up.
\<close>

subsection \<open>Values, errors and diagnostics\<close>

text \<open>The arguments that the source compares with unit tokens: strings, and the
  boolean flag \<open>SI\<close> that one caller passes where a token is expected.\<close>

datatype pyval = PyStr string | PyBool bool

text \<open>\<open>RuntimeError fmt v\<close> is \<^verbatim>\<open>RuntimeError(fmt % v)\<close>: the format string of the source
  and the value interpolated at \<^verbatim>\<open>%r\<close>. \<open>NotImplementedError msg v\<close> carries the message
  text of the source and the token it is raised for. \<open>NameError n\<close> is the lookup of a name
  \<open>n\<close> that is bound nowhere. \<open>NonFinite\<close> is not an exception of the source: a numpy
  division by zero yields \<^verbatim>\<open>inf\<close> or \<^verbatim>\<open>nan\<close>, for which the real numbers have no value, and
  the model stops there.\<close>

datatype error =
    RuntimeError string pyval
  | NotImplementedError string string
  | NameError string
  | ZeroDivisionError
  | ValueError
  | OverflowError
  | NonFinite

datatype diag =
    ViscosityWarning real
  | IterationNotice nat
  | DebugPrint "real list"

definition py_div :: "real \<Rightarrow> real \<Rightarrow> error + real" where
  "py_div a b = (if b = 0 then Inl ZeroDivisionError else Inr (a / b))"

definition py_log :: "real \<Rightarrow> error + real" where
  "py_log x = (if 0 < x then Inr (ln x) else Inl ValueError)"

text \<open>What \<^verbatim>\<open>math.exp\<close> and \<^verbatim>\<open>**\<close> make of the exact result \<open>r\<close>: doubles end below \<open>2 ^ 1024\<close>,
  and a magnitude of at most \<open>2 ^ - 1075\<close> rounds to \<^verbatim>\<open>0.0\<close> without an error.\<close>

definition float_result :: "real \<Rightarrow> error + real" where
  "float_result r =
     (if 2 ^ 1024 \<le> \<bar>r\<bar> then Inl OverflowError
      else if \<bar>r\<bar> \<le> 1 / 2 ^ 1075 then Inr 0
      else Inr r)"

definition py_exp :: "real \<Rightarrow> error + real" where
  "py_exp x = float_result (exp x)"

subsection \<open>Altitude normalisation\<close>

definition update_alt :: "real \<Rightarrow> pyval \<Rightarrow> error + real" where
  "update_alt alt alt_units =
     (if alt_units = PyStr ''ft'' then Inr (alt * 1)
      else if alt_units = PyStr ''m'' then Inr (alt * (1 / 0.3048))
      else if alt_units = PyStr ''kft'' then Inr (alt * 1000)
      else Inl (RuntimeError ''alt_units=%r is not valid; use [ft, m, kft]'' alt_units))"

definition feet_to_alt_units :: "string \<Rightarrow> error + real" where
  "feet_to_alt_units alt_units =
     (if alt_units = ''m'' then Inr 0.3048
      else if alt_units = ''ft'' then Inr 1
      else Inl (RuntimeError ''alt_units=%r is not valid; use [ft, m]'' (PyStr alt_units)))"

subsection \<open>Unit conversion\<close>

definition convert_altitude :: "real \<Rightarrow> string \<Rightarrow> string \<Rightarrow> error + real" where
  "convert_altitude alt alt_units_in alt_units_out =
     (if alt_units_in = alt_units_out then Inr alt
      else
        case (if alt_units_in = ''m'' then Inr (1 / 0.3048)
              else if alt_units_in = ''ft'' then Inr 1
              else if alt_units_in = ''kft'' then Inr (1 * 1000)
              else Inl (RuntimeError ''alt_units_in=%r is not valid; use [ft, m, kft]''
                          (PyStr alt_units_in))) of
          Inl e \<Rightarrow> Inl e
        | Inr factor \<Rightarrow>
            (if alt_units_out = ''m'' then Inr (alt * (factor * 0.3048))
             else if alt_units_out = ''ft'' then Inr (alt * factor)
             else if alt_units_out = ''kft'' then Inr (alt * (factor / 1000))
             else Inl (RuntimeError ''alt_units_out=%r is not valid; use [ft, m, kft]''
                         (PyStr alt_units_out))))"

definition convert_velocity :: "real \<Rightarrow> string \<Rightarrow> string \<Rightarrow> error + real" where
  "convert_velocity velocity velocity_units_in velocity_units_out =
     (if velocity_units_in = velocity_units_out then Inr velocity
      else
        case (if velocity_units_in = ''m/s'' then Inr (1 / 0.3048)
              else if velocity_units_in = ''ft/s'' then Inr 1
              else if velocity_units_in = ''in/s'' then Inr (1 / 12)
              else if velocity_units_in = ''knots'' then Inr (1 * 1.68781)
              else Inl (RuntimeError
                          ''velocity_units_in=%r is not valid; use [ft/s, m/s, knots]''
                          (PyStr velocity_units_in))) of
          Inl e \<Rightarrow> Inl e
        | Inr factor \<Rightarrow>
            (if velocity_units_out = ''m/s'' then Inr (velocity * (factor * 0.3048))
             else if velocity_units_out = ''ft/s'' then Inr (velocity * factor)
             else if velocity_units_out = ''in/s'' then Inr (velocity * (factor * 12))
             else if velocity_units_out = ''knots'' then Inr (velocity * (factor / 1.68781))
             else Inl (RuntimeError
                         ''velocity_units_out=%r is not valid; use [ft/s, m/s, in/s, knots]''
                         (PyStr velocity_units_out))))"

definition convert_pressure :: "real \<Rightarrow> string \<Rightarrow> string \<Rightarrow> error + real" where
  "convert_pressure pressure pressure_units_in pressure_units_out =
     (if pressure_units_in = pressure_units_out then Inr pressure
      else
        case (if pressure_units_in = ''psf'' then Inr 1
              else if pressure_units_in = ''psi'' then Inr (1 * 144)
              else if pressure_units_in = ''Pa'' then Inr (1 / 47.880172)
              else Inl (RuntimeError
                          ''pressure_units_in=%r is not valid; use [psf, psi, Pa]''
                          (PyStr pressure_units_in))) of
          Inl e \<Rightarrow> Inl e
        | Inr factor \<Rightarrow>
            (if pressure_units_out = ''psf'' then Inr (pressure * factor)
             else if pressure_units_out = ''psi'' then Inr (pressure * (factor / 144))
             else if pressure_units_out = ''Pa'' then Inr (pressure * (factor * 47.880172))
             else Inl (RuntimeError
                         ''pressure_units_out=%r is not valid; use [psf, psi, Pa]''
                         (PyStr pressure_units_out))))"

definition convert_density :: "real \<Rightarrow> string \<Rightarrow> string \<Rightarrow> error + real" where
  "convert_density density density_units_in density_units_out =
     (if density_units_in = density_units_out then Inr density
      else
        case (if density_units_in = ''slug/ft^3'' then Inr 1
              else if density_units_in = ''slinch/in^3'' then Inr (1 * 12 ^ 4)
              else if density_units_in = ''kg/m^3'' then Inr (1 / 515.378818)
              else Inl (RuntimeError
                          ''density_units_in=%r is not valid; use [slug/ft^3]''
                          (PyStr density_units_in))) of
          Inl e \<Rightarrow> Inl e
        | Inr factor \<Rightarrow>
            (if density_units_out = ''slug/ft^3'' then Inr (density * factor)
             else if density_units_out = ''slinch/in^3'' then Inr (density * (factor / 12 ^ 4))
             else if density_units_out = ''kg/m^3'' then Inr (density * (factor * 515.378818))
             else Inl (RuntimeError
                         ''density_units_out=%r is not valid; use [slug/ft^3, slinch/in^3]''
                         (PyStr density_units_out))))"





subsection \<open>Atmosphere profile\<close>

definition bind_err :: "error + 'a \<Rightarrow> ('a \<Rightarrow> error + 'b) \<Rightarrow> error + 'b" where
  "bind_err r f = (case r of Inl e \<Rightarrow> Inl e | Inr v \<Rightarrow> f v)"

definition atm_temperature :: "real \<Rightarrow> string \<Rightarrow> string \<Rightarrow> error + real" where
  "atm_temperature alt alt_units temperature_units =
     bind_err (update_alt alt (PyStr alt_units)) (\<lambda>z.
       let T = (if z < 36151.725 then 518.0 - 0.003559996 * z
                else if z < 82344.678 then 389.988
                else if z < 155347.756 then 389.988 + 0.0016273286 * (z - 82344.678)
                else if z < 175346.171 then 508.788
                else if z < 249000.304 then 508.788 - 0.0020968273 * (z - 175346.171)
                else if z < 299515.564 then 354.348
                else 354.348)
       in if temperature_units = ''R'' then Inr (T * 1)
          else if temperature_units = ''K'' then Inr (T * (5 / 9))
          else Inl (RuntimeError ''temperature_units=%r is not valid; use [ft, m]''
                      (PyStr temperature_units)))"

text \<open>The argument \<open>debug\<close> of the source is never read.\<close>

definition atm_pressure :: "real \<Rightarrow> string \<Rightarrow> string \<Rightarrow> error + real" where
  "atm_pressure alt alt_units pressure_units =
     bind_err (update_alt alt (PyStr alt_units)) (\<lambda>z.
     bind_err
       (if z < 36151.725 then
          bind_err (py_log (1 - 0.0000068634634 * z)) (\<lambda>l. Inr (7.657389 + 5.2561258 * l))
        else if z < 82344.678 then
          Inr (6.158411 - 0.0000477916918 * (z - 36151.725))
        else if z < 155347.756 then
          bind_err (py_log (1.0 + 0.00000417276598 * (z - 82344.678)))
            (\<lambda>l. Inr (3.950775 - 11.3882724 * l))
        else if z < 175346.171 then
          Inr (0.922461 - 0.0000362635373 * (z - 155347.756))
        else if z < 249000.304 then
          bind_err (py_log (1.0 - 0.00000412122002 * (z - 175346.171)))
            (\<lambda>l. Inr (0.197235 + 8.7602095 * l))
        else if z < 299515.564 then
          Inr (- 2.971785 - 0.000051533546650 * (z - 249000.304))
        else
          Inr (- 2.971785 - 0.000051533546650 * (z - 249000.304)))
       (\<lambda>lnP.
     bind_err (py_exp lnP) (\<lambda>p.
     bind_err (convert_pressure 1 ''psf'' pressure_units) (\<lambda>factor.
       Inr (p * factor)))))"

subsection \<open>Derived quantities\<close>

text \<open>The power \<^verbatim>\<open>x ** 0.5\<close> is \<open>x powr 0.5\<close>, which is Python's value for \<open>x \<ge> 0\<close>;
  the temperature of the profile is positive, so with the default \<open>gamma\<close> the base is. The
  square root of a double is in the range of the doubles, so this power never raises.\<close>

definition atm_speed_of_sound :: "real \<Rightarrow> string \<Rightarrow> string \<Rightarrow> real \<Rightarrow> error + real" where
  "atm_speed_of_sound alt alt_units velocity_units gamma =
     bind_err (update_alt alt (PyStr alt_units)) (\<lambda>z.
     bind_err (atm_temperature z ''ft'' ''R'') (\<lambda>T.
       let R = 1716; a = (gamma * R * T) powr 0.5 in
       bind_err (convert_velocity 1 ''ft/s'' velocity_units) (\<lambda>factor.
         Inr (a * factor))))"

definition atm_velocity :: "real \<Rightarrow> real \<Rightarrow> string \<Rightarrow> string \<Rightarrow> error + real" where
  "atm_velocity alt mach alt_units velocity_units =
     bind_err (atm_speed_of_sound alt alt_units velocity_units 1.4) (\<lambda>a. Inr (mach * a))"

definition atm_density :: "real \<Rightarrow> real \<Rightarrow> string \<Rightarrow> string \<Rightarrow> error + real" where
  "atm_density alt R alt_units density_units =
     bind_err (update_alt alt (PyStr alt_units)) (\<lambda>z.
     bind_err (atm_pressure z ''ft'' ''psf'') (\<lambda>P.
     bind_err (atm_temperature z ''ft'' ''R'') (\<lambda>T.
     bind_err (py_div P (R * T)) (\<lambda>rho.
       convert_density rho ''slug/ft^3'' density_units))))"

text \<open>Sutherland's law. The second branch runs for \<open>225 \<le> T\<close> only, where the exact value
  of \<^verbatim>\<open>T ** 1.5\<close> is \<open>T powr 1.5\<close>. The first component of the result is what the call
  writes to the standard error stream; the warning is written before the power is taken.\<close>

definition sutherland_viscoscity :: "real \<Rightarrow> diag list \<times> (error + real)" where
  "sutherland_viscoscity T =
     (if T < 225 then ([], Inr (0.00000000080382436 * T))
      else ((if T > 5400 then [ViscosityWarning T] else []),
            bind_err (float_result (T powr 1.5)) (\<lambda>T15.
              py_div (0.0000000227 * T15) (T + 198.6))))"

definition atm_dynamic_viscosity_mu ::
  "real \<Rightarrow> string \<Rightarrow> string \<Rightarrow> diag list \<times> (error + real)" where
  "atm_dynamic_viscosity_mu alt alt_units visc_units =
     (case update_alt alt (PyStr alt_units) of
        Inl e \<Rightarrow> ([], Inl e)
      | Inr z \<Rightarrow>
        (case atm_temperature z ''ft'' ''R'' of
           Inl e \<Rightarrow> ([], Inl e)
         | Inr T \<Rightarrow>
           (case sutherland_viscoscity T of
              (out, Inl e) \<Rightarrow> (out, Inl e)
            | (out, Inr mu) \<Rightarrow>
              if visc_units = ''(lbf*s)/ft^2'' then (out, Inr (mu * 1))
              else if visc_units \<in> {''(N*s)/m^2'', ''Pa*s''} then (out, Inr (mu * 47.88026))
              else (out, Inl (NotImplementedError
                     ''visc_units=%r; not in (lbf*s)/ft^2 or (N*s)/m^2 or Pa*s'' visc_units)))))"

definition atm_kinematic_viscosity_nu ::
  "real \<Rightarrow> string \<Rightarrow> string \<Rightarrow> bool \<Rightarrow> diag list \<times> (error + real)" where
  "atm_kinematic_viscosity_nu alt alt_units visc_units debug =
     (case update_alt alt (PyStr alt_units) of
        Inl e \<Rightarrow> ([], Inl e)
      | Inr z \<Rightarrow>
        (case atm_density z 1716 ''ft'' ''slug/ft^3'' of
           Inl e \<Rightarrow> ([], Inl e)
         | Inr rho \<Rightarrow>
           (case atm_dynamic_viscosity_mu z ''ft'' ''(lbf*s)/ft^2'' of
              (out, Inl e) \<Rightarrow> (out, Inl e)
            | (out, Inr mu) \<Rightarrow>
              (case py_div mu rho of
                 Inl e \<Rightarrow> (out, Inl e)
               | Inr nu \<Rightarrow>
                 (let out' = out @ (if debug then [DebugPrint [rho, mu, nu]] else []) in
                  if visc_units = ''ft^2/s'' then (out', Inr (nu * 1))
                  else if visc_units = ''m^2/s'' then
                    (case feet_to_alt_units alt_units of
                       Inl e \<Rightarrow> (out', Inl e)
                     | Inr f \<Rightarrow> (out', Inr (nu * f ^ 2)))
                  else (out', Inl (NotImplementedError ''visc_units=%r'' visc_units)))))))"

text \<open>The unit Reynolds number, direct form. A debug print is one \<open>DebugPrint\<close> with the
  numbers printed, in order.\<close>

definition atm_unit_reynolds_number2 ::
  "real \<Rightarrow> real \<Rightarrow> string \<Rightarrow> string \<Rightarrow> bool \<Rightarrow> diag list \<times> (error + real)" where
  "atm_unit_reynolds_number2 alt mach alt_units ReL_units debug =
     (case update_alt alt (PyStr alt_units) of
        Inl e \<Rightarrow> ([], Inl e)
      | Inr z \<Rightarrow>
        (case atm_pressure z ''ft'' ''psf'' of
           Inl e \<Rightarrow> ([], Inl e)
         | Inr p \<Rightarrow>
           (case atm_temperature z ''ft'' ''R'' of
              Inl e \<Rightarrow> ([], Inl e)
            | Inr T \<Rightarrow>
              (let gamma = 1.4; R = 1716; a = (gamma * R * T) powr 0.5 in
               case sutherland_viscoscity T of
                 (out, Inl e) \<Rightarrow> (out, Inl e)
               | (out, Inr mu) \<Rightarrow>
                 (case py_div (p * a * mach) (mu * R * T) of
                    Inl e \<Rightarrow> (out, Inl e)
                  | Inr ReL \<Rightarrow>
                    (let rho = p / (R * T);
                         out' = out @ (if debug then
                                  [DebugPrint [alt * 0.3048, z, a * 0.3048, a,
                                     rho * 515.378818, rho, mach, a * mach * 0.3048, a * mach,
                                     T * 5 / 9, T, mu * 47.88026, mu, ReL / 0.3048, ReL]]
                                else [])
                     in if ReL_units = ''1/ft'' then (out', Inr (ReL * 1))
                        else if ReL_units = ''1/m'' then (out', Inr (ReL * (1 / 0.3048)))
                        else (out', Inl (NotImplementedError [] ReL_units))))))))"

text \<open>The unit Reynolds number, compositional form. The source hands the flag \<open>SI\<close> to
  \<open>_update_alt\<close> in the place of the altitude unit.\<close>

definition atm_unit_reynolds_number ::
  "real \<Rightarrow> real \<Rightarrow> bool \<Rightarrow> bool \<Rightarrow> diag list \<times> (error + real)" where
  "atm_unit_reynolds_number alt mach SI debug =
     (case update_alt alt (PyBool SI) of
        Inl e \<Rightarrow> ([], Inl e)
      | Inr z \<Rightarrow>
        (case atm_density z 1716 ''ft'' ''slug/ft^3'' of
           Inl e \<Rightarrow> ([], Inl e)
         | Inr rho \<Rightarrow>
           (case atm_velocity z mach ''ft'' ''ft/s'' of
              Inl e \<Rightarrow> ([], Inl e)
            | Inr V \<Rightarrow>
              (case atm_dynamic_viscosity_mu z ''ft'' ''(lbf*s)/ft^2'' of
                 (out, Inl e) \<Rightarrow> (out, Inl e)
               | (out, Inr mu) \<Rightarrow>
                 (case py_div (rho * V) mu of
                    Inl e \<Rightarrow> (out, Inl e)
                  | Inr ReL \<Rightarrow>
                    (let out' = out @ (if debug then
                                  [DebugPrint [alt * 0.3048, z, rho * 515.378818, rho,
                                     V * 0.3048, V, mu * 47.88026, mu, ReL / 0.3048, ReL]]
                                else [])
                     in if SI then (out', Inr (ReL / 0.3048)) else (out', Inr ReL)))))))"

subsection \<open>Inverse solvers\<close>

text \<open>Each \<^verbatim>\<open>while\<close> loop is a recursive function of the loop variables \<open>alt_old\<close>,
  \<open>alt_final\<close> and \<open>n\<close>; it returns the last estimate with the iteration count.\<close>

function get_alt_for_density_loop ::
  "real \<Rightarrow> real \<Rightarrow> real \<Rightarrow> nat \<Rightarrow> error + real \<times> nat" where
  "get_alt_for_density_loop density alt_old alt_final n =
     (if \<bar>alt_final - alt_old\<bar> > 5 \<and> n < 20 then
        (case atm_density alt_final 1716 ''ft'' ''slug/ft^3'' of
           Inl e \<Rightarrow> Inl e
         | Inr rho1 \<Rightarrow>
           (case atm_density (alt_final + 500) 1716 ''ft'' ''slug/ft^3'' of
              Inl e \<Rightarrow> Inl e
            | Inr rho2 \<Rightarrow>
              (case py_div 500 (rho2 - rho1) of
                 Inl e \<Rightarrow> Inl e
               | Inr m \<Rightarrow>
                 get_alt_for_density_loop density alt_final
                   (m * (density - rho1) + alt_final) (n + 1))))
      else Inr (alt_final, n))"
  by pat_completeness auto
termination
  by (relation "measure (\<lambda>(density, alt_old, alt_final, n). 20 - n)") auto

declare get_alt_for_density_loop.simps [simp del]

definition get_alt_for_density :: "real \<Rightarrow> diag list \<times> (error + real)" where
  "get_alt_for_density density =
     (case get_alt_for_density_loop density 0 5000 0 of
        Inl e \<Rightarrow> ([], Inl e)
      | Inr (alt_final, n) \<Rightarrow>
        ((if n > 18 then [IterationNotice n] else []), Inr alt_final))"

text \<open>The names the module binds to a conversion function of three arguments. The two
  solvers below call \<^verbatim>\<open>_convert_pressure\<close> and \<^verbatim>\<open>_convert_velocity\<close>; the module defines
  and imports neither, so the lookup raises.\<close>

definition module_converter ::
  "string \<Rightarrow> error + (real \<Rightarrow> string \<Rightarrow> string \<Rightarrow> error + real)" where
  "module_converter name =
     (if name = ''convert_altitude'' then Inr convert_altitude
      else if name = ''convert_velocity'' then Inr convert_velocity
      else if name = ''convert_pressure'' then Inr convert_pressure
      else if name = ''convert_density'' then Inr convert_density
      else Inl (NameError name))"

function get_alt_for_pressure_loop ::
  "real \<Rightarrow> real \<Rightarrow> real \<Rightarrow> nat \<Rightarrow> error + real \<times> nat" where
  "get_alt_for_pressure_loop pressure alt_old alt_final n =
     (if \<bar>alt_final - alt_old\<bar> > 5 \<and> n < 20 then
        (case atm_pressure alt_final ''ft'' ''psf'' of
           Inl e \<Rightarrow> Inl e
         | Inr press1 \<Rightarrow>
           (case atm_pressure (alt_final + 500) ''ft'' ''psf'' of
              Inl e \<Rightarrow> Inl e
            | Inr press2 \<Rightarrow>
              (case py_div 500 (press2 - press1) of
                 Inl e \<Rightarrow> Inl e
               | Inr m \<Rightarrow>
                 get_alt_for_pressure_loop pressure alt_final
                   (m * (pressure - press1) + alt_final) (n + 1))))
      else Inr (alt_final, n))"
  by pat_completeness auto
termination
  by (relation "measure (\<lambda>(pressure, alt_old, alt_final, n). 20 - n)") auto

declare get_alt_for_pressure_loop.simps [simp del]

definition get_alt_for_pressure ::
  "real \<Rightarrow> string \<Rightarrow> string \<Rightarrow> diag list \<times> (error + real)" where
  "get_alt_for_pressure pressure pressure_units alt_units =
     (case module_converter ''_convert_pressure'' of
        Inl e \<Rightarrow> ([], Inl e)
      | Inr conv \<Rightarrow>
        (case conv pressure pressure_units ''psf'' of
           Inl e \<Rightarrow> ([], Inl e)
         | Inr pressure' \<Rightarrow>
           (case get_alt_for_pressure_loop pressure' 0 5000 0 of
              Inl e \<Rightarrow> ([], Inl e)
            | Inr (alt_final, n) \<Rightarrow>
              ((if n > 18 then [IterationNotice n] else []),
               convert_altitude alt_final ''ft'' alt_units))))"

definition get_alt_for_q_mach :: "real \<Rightarrow> real \<Rightarrow> bool \<Rightarrow> diag list \<times> (error + real)" where
  "get_alt_for_q_mach q mach SI =
     (case bind_err (float_result (mach ^ 2)) (\<lambda>mach2. py_div (2 * q) (1.4 * mach2)) of
        Inl e \<Rightarrow> ([], Inl e)
      | Inr pressure \<Rightarrow>
        (let (alt_units, pressure_units) =
               (if SI then (''m'', ''Pa'') else (''ft'', ''psf''))
         in get_alt_for_pressure pressure pressure_units alt_units))"

text \<open>The equivalent-airspeed solver. \<open>np.sqrt\<close> is \<open>sqrt\<close>; the quotient by
  \<open>eas2 - eas1\<close> is a numpy division.\<close>

definition eas_at :: "real \<Rightarrow> real \<Rightarrow> real \<Rightarrow> error + real" where
  "eas_at alt mach k =
     bind_err (atm_temperature alt ''ft'' ''R'') (\<lambda>T.
     bind_err (atm_pressure alt ''ft'' ''psf'') (\<lambda>press.
     bind_err (py_div press T) (\<lambda>r.
       Inr (sqrt (1.4 * 1716 * T) * mach * sqrt r * k))))"

function get_alt_for_eas_mach_loop ::
  "real \<Rightarrow> real \<Rightarrow> real \<Rightarrow> real \<Rightarrow> real \<Rightarrow> nat \<Rightarrow> error + real \<times> nat" where
  "get_alt_for_eas_mach_loop equivalent_airspeed mach k alt_old alt_final n =
     (if \<bar>alt_final - alt_old\<bar> > 5 \<and> n < 20 then
        (case eas_at alt_final mach k of
           Inl e \<Rightarrow> Inl e
         | Inr eas1 \<Rightarrow>
           (case eas_at (alt_final + 500) mach k of
              Inl e \<Rightarrow> Inl e
            | Inr eas2 \<Rightarrow>
              (if eas2 - eas1 = 0 then Inl NonFinite
               else get_alt_for_eas_mach_loop equivalent_airspeed mach k alt_final
                      (500 / (eas2 - eas1) * (equivalent_airspeed - eas1) + alt_final)
                      (n + 1))))
      else Inr (alt_final, n))"
  by pat_completeness auto
termination
  by (relation "measure (\<lambda>(equivalent_airspeed, mach, k, alt_old, alt_final, n). 20 - n)")
    auto

declare get_alt_for_eas_mach_loop.simps [simp del]

definition get_alt_for_eas_mach ::
  "real \<Rightarrow> real \<Rightarrow> string \<Rightarrow> string \<Rightarrow> diag list \<times> (error + real)" where
  "get_alt_for_eas_mach equivalent_airspeed mach velocity_units alt_units =
     (case module_converter ''_convert_velocity'' of
        Inl e \<Rightarrow> ([], Inl e)
      | Inr conv \<Rightarrow>
        (case conv equivalent_airspeed velocity_units ''ft/s'' of
           Inl e \<Rightarrow> ([], Inl e)
         | Inr eas \<Rightarrow>
           (case bind_err (atm_temperature 0 ''ft'' ''R'') (\<lambda>T0.
                 bind_err (atm_pressure 0 ''ft'' ''psf'') (\<lambda>p0.
                 bind_err (py_div T0 p0) (\<lambda>r. Inr (sqrt r)))) of
              Inl e \<Rightarrow> ([], Inl e)
            | Inr k \<Rightarrow>
              (case get_alt_for_eas_mach_loop eas mach k 0 5000 0 of
                 Inl e \<Rightarrow> ([], Inl e)
               | Inr (alt_final, n) \<Rightarrow>
                 ((if n > 18 then [IterationNotice n] else []),
                  convert_altitude alt_final ''ft'' alt_units)))))"

subsection \<open>Comparing results\<close>

text \<open>\<open>res_less a b\<close>: both calls returned a number and the first is strictly smaller.\<close>

definition res_less :: "error + real \<Rightarrow> error + real \<Rightarrow> bool" where
  "res_less a b =
     (case a of
        Inl e \<Rightarrow> False
      | Inr x \<Rightarrow> (case b of Inl e \<Rightarrow> False | Inr y \<Rightarrow> x < y))"

subsection \<open>A polynomial bound for the exponential\<close>

text \<open>The Taylor polynomial of degree 7 of \<open>exp\<close>; it lies below \<open>exp\<close> everywhere and is
  used to bound \<open>exp\<close> and \<open>ln\<close> at the layer boundaries.\<close>

definition taylor8 :: "real \<Rightarrow> real" where
  "taylor8 x = 1 + x + x ^ 2 / 2 + x ^ 3 / 6 + x ^ 4 / 24 + x ^ 5 / 120 + x ^ 6 / 720
               + x ^ 7 / 5040"

section \<open>Properties of the profile\<close>

subsection \<open>Bounds on the exponential and the logarithm\<close>

lemma exp_ge_taylor8: "taylor8 x \<le> exp x"
proof -
  obtain t where "exp x = (\<Sum>m<8. x ^ m / fact m) + exp t / fact 8 * x ^ 8"
    using Maclaurin_exp_le [of x 8] by blast
  moreover have "(\<Sum>m<8. x ^ m / fact m) = taylor8 x"
    by (simp add: taylor8_def numeral_eq_Suc)
  moreover have "0 \<le> exp t / fact 8 * x ^ 8"
    by (intro mult_nonneg_nonneg divide_nonneg_nonneg zero_le_even_power) simp_all
  ultimately show ?thesis by simp
qed

lemma ln_lt_by_taylor:
  assumes "0 < x" "x < taylor8 t"
  shows "ln x < t"
proof -
  have "x < exp t" using assms(2) exp_ge_taylor8 [of t] by simp
  then have "ln x < ln (exp t)" using assms(1) by (rule ln_strict_mono)
  then show ?thesis by simp
qed

lemma ln_gt_by_taylor:
  assumes "0 < x" "1 < x * taylor8 (- t)"
  shows "t < ln x"
proof -
  have "x * taylor8 (- t) \<le> x * exp (- t)"
    using assms(1) exp_ge_taylor8 [of "- t"] by simp
  with assms(2) have "1 < x * exp (- t)" by simp
  then have "exp t < x" by (simp add: exp_minus field_simps)
  then have "ln (exp t) < ln x" by (rule ln_strict_mono) simp
  then show ?thesis by simp
qed

lemma exp_le_by_taylor:
  assumes "0 < taylor8 (- y)"
  shows "exp y \<le> 1 / taylor8 (- y)"
proof -
  have "exp y = 1 / exp (- y)" by (simp add: exp_minus field_simps)
  also have "\<dots> \<le> 1 / taylor8 (- y)"
    using assms exp_ge_taylor8 [of "- y"] by (simp add: frac_le)
  finally show ?thesis .
qed

lemma exp_diff_le:
  fixes a b :: real
  assumes "a \<le> b"
  shows "exp b - exp a \<le> exp b * (b - a)"
proof -
  have "1 + (a - b) \<le> exp (a - b)" by (rule exp_ge_add_one_self)
  then have "exp b * (1 + (a - b)) \<le> exp b * exp (a - b)"
    by (rule mult_left_mono) simp
  also have "\<dots> = exp a" by (simp add: exp_add [symmetric])
  finally show ?thesis by (simp add: algebra_simps)
qed

lemma exp_close:
  fixes a b d E m :: real
  assumes "\<bar>a - b\<bar> \<le> d" "a \<le> m" "b \<le> m" "exp m \<le> E" "E * d < 1 / 1000"
  shows "\<bar>exp a - exp b\<bar> < 1 / 1000"
proof -
  have d: "0 \<le> d" using assms(1) by simp
  have E: "0 \<le> E" using assms(4) exp_ge_zero [of m] by linarith
  have *: "exp v - exp u \<le> E * d" if "u \<le> v" "v - u \<le> d" "v \<le> m" for u v :: real
  proof -
    have "exp v - exp u \<le> exp v * (v - u)" by (rule exp_diff_le [OF that(1)])
    also have "\<dots> \<le> exp m * d"
      using that by (intro mult_mono) simp_all
    also have "\<dots> \<le> E * d" using assms(4) d by (rule mult_right_mono)
    finally show ?thesis .
  qed
  show ?thesis
  proof (cases "a \<le> b")
    case True
    then have "exp b - exp a \<le> E * d" using assms(1,3) by (intro *) simp_all
    moreover have "exp a \<le> exp b" using True by simp
    ultimately show ?thesis using assms(5) by simp
  next
    case False
    then have "exp a - exp b \<le> E * d" using assms(1,2) by (intro *) simp_all
    moreover have "exp b \<le> exp a" using False by simp
    ultimately show ?thesis using assms(5) by simp
  qed
qed

lemma exp_8_le:
  fixes y U :: real
  assumes "0 < taylor8 (- y)" "1 / taylor8 (- y) \<le> U"
  shows "exp (8 * y) \<le> U ^ 8"
proof -
  have "exp y \<le> U" using exp_le_by_taylor [OF assms(1)] assms(2) by simp
  then have "exp y ^ 8 \<le> U ^ 8" by (rule power_mono) simp
  moreover have "exp (8 * y) = exp y ^ 8"
    using exp_of_nat_mult [of 8 y] by simp
  ultimately show ?thesis by simp
qed

text \<open>The range of \<open>float_result\<close> in terms of the argument of \<open>exp\<close>.\<close>

lemma ln2_gt: "0.6931 < ln (2::real)"
  by (rule ln_gt_by_taylor) (simp_all add: taylor8_def power_divide)

lemma ln2_lt: "ln (2::real) < 0.6932"
  by (rule ln_lt_by_taylor) (simp_all add: taylor8_def power_divide)

lemma exp_nat_ln2: "exp (real n * ln 2) = 2 ^ n"
  by (simp add: exp_of_nat_mult)

lemma exp_less_pow2:
  assumes "l < real n * 0.6931"
  shows "exp l < 2 ^ n"
proof -
  have "real n * 0.6931 \<le> real n * ln 2"
    using ln2_gt by (intro mult_left_mono) simp_all
  with assms have "l < real n * ln 2" by simp
  then have "exp l < exp (real n * ln 2)" by simp
  then show ?thesis by (simp only: exp_nat_ln2)
qed

lemma pow2_le_exp:
  assumes "real n * 0.6932 \<le> l"
  shows "2 ^ n \<le> exp l"
proof -
  have "real n * ln 2 \<le> real n * 0.6932"
    using ln2_lt by (intro mult_left_mono) simp_all
  with assms have "real n * ln 2 \<le> l" by simp
  then have "exp (real n * ln 2) \<le> exp l" by simp
  then show ?thesis by (simp only: exp_nat_ln2)
qed

lemma float_result_in_range:
  assumes "1 / 2 ^ 1075 < r" "r < 2 ^ 1024"
  shows "float_result r = Inr r"
proof -
  have "0 < r" using assms(1) by (simp add: less_trans [OF _ assms(1)])
  then have "\<bar>r\<bar> = r" by simp
  with assms show ?thesis by (simp add: float_result_def)
qed

lemma float_result_exp:
  assumes "- 745 \<le> l" "l \<le> 709"
  shows "float_result (exp l) = Inr (exp l)"
proof -
  have hi: "exp l < 2 ^ 1024"
    by (rule exp_less_pow2) (use assms(2) in simp)
  have "exp (- l) < 2 ^ 1075"
    by (rule exp_less_pow2) (use assms(1) in simp)
  then have "1 < 2 ^ 1075 * exp l"
    by (simp add: exp_minus field_simps)
  then have lo: "1 / 2 ^ 1075 < exp l"
    by (simp add: field_simps)
  show ?thesis by (rule float_result_in_range [OF lo hi])
qed


lemma float_result_exp_underflow:
  assumes "l \<le> - 746"
  shows "float_result (exp l) = Inr 0"
proof -
  have "2 ^ 1075 \<le> exp (- l)"
    by (rule pow2_le_exp) (use assms in simp)
  then have "2 ^ 1075 * exp l \<le> 1"
    by (simp add: exp_minus field_simps)
  then have lo: "exp l \<le> 1 / 2 ^ 1075"
    by (simp add: field_simps)
  have "exp l < 1" using assms by simp
  also have "(1::real) \<le> 2 ^ 1024" by simp
  finally have "\<not> 2 ^ 1024 \<le> \<bar>exp l\<bar>" by simp
  with lo show ?thesis by (simp add: float_result_def)
qed

lemma float_result_exp_never_overflows_below_zero:
  assumes "l \<le> 0"
  shows "float_result (exp l) = Inr (if exp l \<le> 1 / 2 ^ 1075 then 0 else exp l)"
proof -
  have "exp l \<le> 1" using assms by simp
  also have "(1::real) < 2 ^ 1024" by simp
  finally have "\<not> 2 ^ 1024 \<le> \<bar>exp l\<bar>" by simp
  then show ?thesis by (simp add: float_result_def)
qed

lemma ln_ge_one_minus_inverse:
  fixes x :: real
  assumes "0 < x"
  shows "1 - 1 / x \<le> ln x"
proof -
  have "ln (1 / x) \<le> 1 / x - 1"
    by (rule ln_le_minus_one) (use assms in simp)
  then show ?thesis using assms by (simp add: ln_div)
qed

lemma exp_le_tiny:
  fixes l :: real
  assumes "l \<le> - 746"
  shows "exp l \<le> 1 / 2 ^ 1075"
proof -
  have "2 ^ 1075 \<le> exp (- l)"
    by (rule pow2_le_exp) (use assms in simp)
  then have "2 ^ 1075 * exp l \<le> 1"
    by (simp add: exp_minus field_simps)
  then show ?thesis by (simp add: field_simps)
qed


subsection \<open>The closed form of each layer\<close>

lemma update_alt_ft: "update_alt z (PyStr ''ft'') = Inr z"
  by (simp add: update_alt_def)

lemma convert_pressure_psf: "convert_pressure x ''psf'' ''psf'' = Inr x"
  by (simp add: convert_pressure_def)

lemma atm_temperature_layer1:
  "z < 36151.725 \<Longrightarrow> atm_temperature z ''ft'' ''R'' = Inr (518.0 - 0.003559996 * z)"
  by (simp add: atm_temperature_def update_alt_ft bind_err_def)

lemma atm_temperature_layer2:
  "36151.725 \<le> z \<Longrightarrow> z < 82344.678 \<Longrightarrow> atm_temperature z ''ft'' ''R'' = Inr 389.988"
  by (simp add: atm_temperature_def update_alt_ft bind_err_def)

lemma atm_temperature_layer3:
  "82344.678 \<le> z \<Longrightarrow> z < 155347.756 \<Longrightarrow>
   atm_temperature z ''ft'' ''R'' = Inr (389.988 + 0.0016273286 * (z - 82344.678))"
  by (simp add: atm_temperature_def update_alt_ft bind_err_def)

lemma atm_temperature_layer4:
  "155347.756 \<le> z \<Longrightarrow> z < 175346.171 \<Longrightarrow> atm_temperature z ''ft'' ''R'' = Inr 508.788"
  by (simp add: atm_temperature_def update_alt_ft bind_err_def)

lemma atm_temperature_layer5:
  "175346.171 \<le> z \<Longrightarrow> z < 249000.304 \<Longrightarrow>
   atm_temperature z ''ft'' ''R'' = Inr (508.788 - 0.0020968273 * (z - 175346.171))"
  by (simp add: atm_temperature_def update_alt_ft bind_err_def)

lemma atm_temperature_layer6:
  "249000.304 \<le> z \<Longrightarrow> atm_temperature z ''ft'' ''R'' = Inr 354.348"
  by (simp add: atm_temperature_def update_alt_ft bind_err_def)

text \<open>The exponential of the layers' \<open>lnP\<close> stays in the range of the doubles.\<close>

lemma py_exp_affine_plus:
  fixes a p L lo hi :: real
  assumes "lo \<le> L" "L \<le> hi" "0 \<le> p" "- 745 \<le> a + p * lo" "a + p * hi \<le> 709"
  shows "py_exp (a + p * L) = Inr (exp (a + p * L))"
proof -
  have "p * lo \<le> p * L" "p * L \<le> p * hi"
    using assms(1-3) by (simp_all add: mult_left_mono)
  then have "- 745 \<le> a + p * L" "a + p * L \<le> 709"
    using assms(4,5) by linarith+
  then show ?thesis unfolding py_exp_def by (rule float_result_exp)
qed

lemma py_exp_affine_minus:
  fixes a p L lo hi :: real
  assumes "lo \<le> L" "L \<le> hi" "0 \<le> p" "- 745 \<le> a - p * hi" "a - p * lo \<le> 709"
  shows "py_exp (a - p * L) = Inr (exp (a - p * L))"
proof -
  have "p * lo \<le> p * L" "p * L \<le> p * hi"
    using assms(1-3) by (simp_all add: mult_left_mono)
  then have "- 745 \<le> a - p * L" "a - p * L \<le> 709"
    using assms(4,5) by linarith+
  then show ?thesis unfolding py_exp_def by (rule float_result_exp)
qed

lemma atm_pressure_layer1:
  assumes "- (10 ^ 40) \<le> z" "z < 36151.725"
  shows "atm_pressure z ''ft'' ''psf'' =
         Inr (exp (7.657389 + 5.2561258 * ln (1 - 0.0000068634634 * z)))"
proof -
  let ?x = "1 - 0.0000068634634 * z"
  have x_lb: "3 / 4 \<le> ?x" using assms(2) by (simp add: field_simps)
  then have x: "0 < ?x" by simp
  have "1 - 1 / ?x \<le> ln ?x" by (rule ln_ge_one_minus_inverse [OF x])
  moreover have "- (1 / 3) \<le> 1 - 1 / ?x" using x_lb x by (simp add: field_simps)
  ultimately have lo: "- (1 / 3) \<le> ln ?x" by simp
  have "?x \<le> 2 ^ 117" using assms(1) by (simp add: field_simps)
  then have "ln ?x \<le> ln (2 ^ 117 :: real)" using x by simp
  also have "\<dots> = real 117 * ln 2" by (rule ln_realpow)
  also have "\<dots> \<le> 82" using ln2_lt by simp
  finally have hi: "ln ?x \<le> 82" .
  have e: "py_exp (7.657389 + 5.2561258 * ln ?x) = Inr (exp (7.657389 + 5.2561258 * ln ?x))"
    by (rule py_exp_affine_plus [OF lo hi]) simp_all
  show ?thesis
    using assms(2) x e
    by (simp add: atm_pressure_def update_alt_ft bind_err_def py_log_def convert_pressure_psf)
qed

lemma atm_pressure_layer2:
  assumes "36151.725 \<le> z" "z < 82344.678"
  shows "atm_pressure z ''ft'' ''psf'' =
         Inr (exp (6.158411 - 0.0000477916918 * (z - 36151.725)))"
proof -
  have lo: "0 \<le> z - 36151.725" and hi: "z - 36151.725 \<le> 50000"
    using assms by simp_all
  have e: "py_exp (6.158411 - 0.0000477916918 * (z - 36151.725))
         = Inr (exp (6.158411 - 0.0000477916918 * (z - 36151.725)))"
    by (rule py_exp_affine_minus [OF lo hi]) simp_all
  show ?thesis
    using assms e
    by (simp add: atm_pressure_def update_alt_ft bind_err_def convert_pressure_psf)
qed

lemma atm_pressure_layer3:
  assumes "82344.678 \<le> z" "z < 155347.756"
  shows "atm_pressure z ''ft'' ''psf'' =
         Inr (exp (3.950775 - 11.3882724 * ln (1.0 + 0.00000417276598 * (z - 82344.678))))"
proof -
  let ?x = "1.0 + 0.00000417276598 * (z - 82344.678)"
  have x1: "1 \<le> ?x" using assms(1) by (simp add: field_simps)
  have x: "0 < ?x" by (rule less_le_trans [OF zero_less_one x1])
  have lo: "0 \<le> ln ?x" using x1 by simp
  have "ln ?x \<le> ?x - 1" by (rule ln_le_minus_one [OF x])
  moreover have "?x - 1 \<le> 1" using assms(2) by (simp add: field_simps)
  ultimately have hi: "ln ?x \<le> 1" by simp
  have e: "py_exp (3.950775 - 11.3882724 * ln ?x) = Inr (exp (3.950775 - 11.3882724 * ln ?x))"
    by (rule py_exp_affine_minus [OF lo hi]) simp_all
  show ?thesis
    using assms x e
    by (simp add: atm_pressure_def update_alt_ft bind_err_def py_log_def convert_pressure_psf)
qed

lemma atm_pressure_layer4:
  assumes "155347.756 \<le> z" "z < 175346.171"
  shows "atm_pressure z ''ft'' ''psf'' =
         Inr (exp (0.922461 - 0.0000362635373 * (z - 155347.756)))"
proof -
  have lo: "0 \<le> z - 155347.756" and hi: "z - 155347.756 \<le> 20000"
    using assms by simp_all
  have e: "py_exp (0.922461 - 0.0000362635373 * (z - 155347.756))
         = Inr (exp (0.922461 - 0.0000362635373 * (z - 155347.756)))"
    by (rule py_exp_affine_minus [OF lo hi]) simp_all
  show ?thesis
    using assms e
    by (simp add: atm_pressure_def update_alt_ft bind_err_def convert_pressure_psf)
qed

lemma atm_pressure_layer5:
  assumes "175346.171 \<le> z" "z < 249000.304"
  shows "atm_pressure z ''ft'' ''psf'' =
         Inr (exp (0.197235 + 8.7602095 * ln (1.0 - 0.00000412122002 * (z - 175346.171))))"
proof -
  let ?x = "1.0 - 0.00000412122002 * (z - 175346.171)"
  have x_lb: "2 / 3 \<le> ?x" using assms(2) by (simp add: field_simps)
  then have x: "0 < ?x" by simp
  have "1 - 1 / ?x \<le> ln ?x" by (rule ln_ge_one_minus_inverse [OF x])
  moreover have "- (1 / 2) \<le> 1 - 1 / ?x" using x_lb x by (simp add: field_simps)
  ultimately have lo: "- (1 / 2) \<le> ln ?x" by simp
  have "?x \<le> 1" using assms(1) by (simp add: field_simps)
  then have hi: "ln ?x \<le> 0" using x by simp
  have e: "py_exp (0.197235 + 8.7602095 * ln ?x) = Inr (exp (0.197235 + 8.7602095 * ln ?x))"
    by (rule py_exp_affine_plus [OF lo hi]) simp_all
  show ?thesis
    using assms x e
    by (simp add: atm_pressure_def update_alt_ft bind_err_def py_log_def convert_pressure_psf)
qed

text \<open>In the last layer the exponential cannot overflow; far above it underflows to zero.\<close>

lemma atm_pressure_layer6_any:
  assumes "249000.304 \<le> z"
  shows "atm_pressure z ''ft'' ''psf'' =
         Inr (if exp (- 2.971785 - 0.000051533546650 * (z - 249000.304)) \<le> 1 / 2 ^ 1075
              then 0 else exp (- 2.971785 - 0.000051533546650 * (z - 249000.304)))"
proof -
  have "- 2.971785 - 0.000051533546650 * (z - 249000.304) \<le> 0"
    using assms by (simp add: field_simps)
  then have e: "py_exp (- 2.971785 - 0.000051533546650 * (z - 249000.304)) =
      Inr (if exp (- 2.971785 - 0.000051533546650 * (z - 249000.304)) \<le> 1 / 2 ^ 1075
           then 0 else exp (- 2.971785 - 0.000051533546650 * (z - 249000.304)))"
    unfolding py_exp_def by (rule float_result_exp_never_overflows_below_zero)
  have c: "\<not> z < 36151.725" "\<not> z < 82344.678" "\<not> z < 155347.756" "\<not> z < 175346.171"
    "\<not> z < 249000.304"
    using assms by simp_all
  show ?thesis
    by (simp only: atm_pressure_def update_alt_ft bind_err_def convert_pressure_psf c e
        if_False if_cancel sum.case mult_1_right mult_zero_left)
qed

lemma atm_pressure_layer6:
  assumes "249000.304 \<le> z" "z \<le> 10 ^ 7"
  shows "atm_pressure z ''ft'' ''psf'' =
         Inr (exp (- 2.971785 - 0.000051533546650 * (z - 249000.304)))"
proof -
  have lo: "0 \<le> z - 249000.304" and hi: "z - 249000.304 \<le> 10 ^ 7"
    using assms by simp_all
  have e: "py_exp (- 2.971785 - 0.000051533546650 * (z - 249000.304))
         = Inr (exp (- 2.971785 - 0.000051533546650 * (z - 249000.304)))"
    by (rule py_exp_affine_minus [OF lo hi]) simp_all
  show ?thesis
    using assms(1) e
    by (simp add: atm_pressure_def update_alt_ft bind_err_def convert_pressure_psf)
qed

lemma layer_cases:
  fixes z :: real
  obtains "z < 36151.725"
  | "36151.725 \<le> z" "z < 82344.678"
  | "82344.678 \<le> z" "z < 155347.756"
  | "155347.756 \<le> z" "z < 175346.171"
  | "175346.171 \<le> z" "z < 249000.304"
  | "249000.304 \<le> z"
  by (simp, linarith)

lemma atm_temperature_ft_pos:
  "\<exists>T. atm_temperature z ''ft'' ''R'' = Inr T \<and> 0 < T"
proof (cases z rule: layer_cases)
  case 1
  then have "0 < 518.0 - 0.003559996 * z" by (simp add: field_simps)
  with atm_temperature_layer1 [OF 1] show ?thesis by blast
next
  case 2
  have "(0::real) < 389.988" by simp
  with atm_temperature_layer2 [OF 2] show ?thesis by blast
next
  case 3
  then have "0 < 389.988 + 0.0016273286 * (z - 82344.678)" by (simp add: field_simps)
  with atm_temperature_layer3 [OF 3] show ?thesis by blast
next
  case 4
  have "(0::real) < 508.788" by simp
  with atm_temperature_layer4 [OF 4] show ?thesis by blast
next
  case 5
  then have "0 < 508.788 - 0.0020968273 * (z - 175346.171)" by (simp add: field_simps)
  with atm_temperature_layer5 [OF 5] show ?thesis by blast
next
  case 6
  have "(0::real) < 354.348" by simp
  with atm_temperature_layer6 [OF 6] show ?thesis by blast
qed

lemma atm_pressure_ft_pos:
  assumes "- (10 ^ 40) \<le> z" "z \<le> 10 ^ 7"
  shows "\<exists>P. atm_pressure z ''ft'' ''psf'' = Inr P \<and> 0 < P"
proof (cases z rule: layer_cases)
  case 1
  show ?thesis using atm_pressure_layer1 [OF assms(1) 1] exp_gt_zero by blast
next
  case 2
  show ?thesis using atm_pressure_layer2 [OF 2] exp_gt_zero by blast
next
  case 3
  show ?thesis using atm_pressure_layer3 [OF 3] exp_gt_zero by blast
next
  case 4
  show ?thesis using atm_pressure_layer4 [OF 4] exp_gt_zero by blast
next
  case 5
  show ?thesis using atm_pressure_layer5 [OF 5] exp_gt_zero by blast
next
  case 6
  show ?thesis using atm_pressure_layer6 [OF 6 assms(2)] exp_gt_zero by blast
qed

subsection \<open>Derived quantities return a number\<close>

lemma atm_density_ft:
  assumes "atm_pressure z ''ft'' ''psf'' = Inr P" "atm_temperature z ''ft'' ''R'' = Inr T"
    and "R * T \<noteq> 0"
  shows "atm_density z R ''ft'' ''slug/ft^3'' = Inr (P / (R * T))"
  using assms
  by (simp add: atm_density_def update_alt_ft bind_err_def py_div_def convert_density_def)

lemma square_powr_three_halves:
  fixes B :: real
  assumes "0 < B"
  shows "(B\<^sup>2) powr 1.5 = B ^ 3"
proof -
  have "(B\<^sup>2) powr 1.5 = (B powr 2) powr 1.5"
    using assms by (simp add: powr_numeral)
  also have "\<dots> = B powr 3" by (simp add: powr_powr)
  also have "\<dots> = B ^ 3" using assms by (simp add: powr_numeral)
  finally show ?thesis .
qed

lemma power_three_halves_in_range:
  fixes T :: real
  assumes "225 \<le> T" "T \<le> 10 ^ 200"
  shows "float_result (T powr 1.5) = Inr (T powr 1.5)"
proof -
  have "1 \<le> T" using assms(1) by simp
  then have "1 \<le> T powr 1.5" by (rule ge_one_powr_ge_zero) simp
  moreover have "1 / 2 ^ 1075 < (1::real)" by simp
  ultimately have lo: "1 / 2 ^ 1075 < T powr 1.5" by (rule less_le_trans [rotated])
  have "T powr 1.5 \<le> ((10 ^ 100)\<^sup>2) powr 1.5"
    using assms by (intro powr_mono2) simp_all
  also have "\<dots> = (10 ^ 100) ^ 3" by (rule square_powr_three_halves) simp
  also have "\<dots> < (2::real) ^ 1024" by simp
  finally have hi: "T powr 1.5 < 2 ^ 1024" .
  show ?thesis by (rule float_result_in_range [OF lo hi])
qed

lemma sutherland_viscoscity_high:
  assumes "225 \<le> T" "T \<le> 10 ^ 200"
  shows "sutherland_viscoscity T =
      ((if T > 5400 then [ViscosityWarning T] else []),
       Inr (0.0000000227 * (T powr 1.5) / (T + 198.6)))"
proof -
  have "T + 198.6 \<noteq> 0" using assms(1) by simp
  moreover have "\<not> T < 225" using assms(1) by simp
  ultimately show ?thesis
    using power_three_halves_in_range [OF assms]
    by (simp add: sutherland_viscoscity_def py_div_def bind_err_def)
qed

lemma sutherland_viscoscity_returns:
  assumes "0 < T" "T \<le> 10 ^ 200"
  shows "\<exists>out mu. sutherland_viscoscity T = (out, Inr mu) \<and> 0 < mu"
proof (cases "T < 225")
  case True
  then have "sutherland_viscoscity T = ([], Inr (0.00000000080382436 * T))"
    by (simp add: sutherland_viscoscity_def)
  moreover have "0 < 0.00000000080382436 * T" using assms(1) by simp
  ultimately show ?thesis by blast
next
  case False
  then have T: "225 \<le> T" by simp
  have "0 < 0.0000000227 * (T powr 1.5) / (T + 198.6)"
    using assms(1) by (simp add: add_pos_pos)
  with sutherland_viscoscity_high [OF T assms(2)] show ?thesis by blast
qed

lemma atm_temperature_ft_bounded:
  assumes "- (10 ^ 40) \<le> z"
  shows "\<exists>T. atm_temperature z ''ft'' ''R'' = Inr T \<and> 0 < T \<and> T \<le> 10 ^ 200"
proof (cases z rule: layer_cases)
  case 1
  then have "0 < 518.0 - 0.003559996 * z" by (simp add: field_simps)
  moreover have "518.0 - 0.003559996 * z \<le> 10 ^ 200"
    using assms by (simp add: field_simps)
  ultimately show ?thesis using atm_temperature_layer1 [OF 1] by blast
next
  case 2
  have "(0::real) < 389.988" "(389.988::real) \<le> 10 ^ 200" by simp_all
  with atm_temperature_layer2 [OF 2] show ?thesis by blast
next
  case 3
  then have "0 < 389.988 + 0.0016273286 * (z - 82344.678)"
    "389.988 + 0.0016273286 * (z - 82344.678) \<le> 10 ^ 200"
    by (simp_all add: field_simps)
  with atm_temperature_layer3 [OF 3] show ?thesis by blast
next
  case 4
  have "(0::real) < 508.788" "(508.788::real) \<le> 10 ^ 200" by simp_all
  with atm_temperature_layer4 [OF 4] show ?thesis by blast
next
  case 5
  then have "0 < 508.788 - 0.0020968273 * (z - 175346.171)"
    "508.788 - 0.0020968273 * (z - 175346.171) \<le> 10 ^ 200"
    by (simp_all add: field_simps)
  with atm_temperature_layer5 [OF 5] show ?thesis by blast
next
  case 6
  have "(0::real) < 354.348" "(354.348::real) \<le> 10 ^ 200" by simp_all
  with atm_temperature_layer6 [OF 6] show ?thesis by blast
qed

lemma atm_dynamic_viscosity_mu_ft:
  assumes "- (10 ^ 40) \<le> z"
  shows "\<exists>out mu. atm_dynamic_viscosity_mu z ''ft'' ''(lbf*s)/ft^2'' = (out, Inr mu) \<and> 0 < mu"
proof -
  obtain T where T: "atm_temperature z ''ft'' ''R'' = Inr T" "0 < T" "T \<le> 10 ^ 200"
    using atm_temperature_ft_bounded [OF assms] by blast
  obtain out mu where "sutherland_viscoscity T = (out, Inr mu)" "0 < mu"
    using sutherland_viscoscity_returns [OF T(2,3)] by blast
  with T(1) show ?thesis
    by (simp add: atm_dynamic_viscosity_mu_def update_alt_ft)
qed

lemma unit_reynolds_number2_returns:
  assumes "- (10 ^ 40) \<le> alt" "alt \<le> 10 ^ 7"
  shows "\<exists>out ReL. atm_unit_reynolds_number2 alt mach ''ft'' ''1/ft'' debug = (out, Inr ReL)"
proof -
  obtain T where T: "atm_temperature alt ''ft'' ''R'' = Inr T" "0 < T" "T \<le> 10 ^ 200"
    using atm_temperature_ft_bounded [OF assms(1)] by blast
  obtain P where P: "atm_pressure alt ''ft'' ''psf'' = Inr P" "0 < P"
    using atm_pressure_ft_pos [OF assms] by blast
  obtain out mu where mu: "sutherland_viscoscity T = (out, Inr mu)" "0 < mu"
    using sutherland_viscoscity_returns [OF T(2,3)] by blast
  have "mu * 1716 * T \<noteq> 0" using mu(2) T(2) by simp
  then show ?thesis using T(1) P(1) mu(1)
    by (simp add: atm_unit_reynolds_number2_def update_alt_ft py_div_def Let_def)
qed

subsection \<open>Strict decrease inside a layer and across a boundary\<close>

lemma exp_ge_cubic:
  fixes x :: real
  assumes "0 \<le> x"
  shows "1 + x + x\<^sup>2 / 2 + x ^ 3 / 6 \<le> exp x"
proof -
  have s: "summable (\<lambda>n. x ^ n / fact n)"
    using summable_exp [of x] by (simp add: field_simps)
  have "(\<Sum>n<4. x ^ n / fact n) \<le> (\<Sum>n. x ^ n / fact n)"
    by (rule sum_le_suminf [OF s]) (use assms in auto)
  also have "(\<Sum>n. x ^ n / fact n) = exp x"
    by (simp add: exp_def field_simps)
  finally show ?thesis
    by (simp add: numeral_eq_Suc field_simps)
qed

lemma ln_gt_by_cubic:
  fixes t x :: real
  assumes "0 \<le> t" "1 < x * (1 + t + t\<^sup>2 / 2 + t ^ 3 / 6)"
  shows "- t < ln x"
proof -
  let ?c = "1 + t + t\<^sup>2 / 2 + t ^ 3 / 6"
  have c: "0 < ?c" using assms(1) by (simp add: add_pos_nonneg)
  have "?c \<le> exp t" by (rule exp_ge_cubic [OF assms(1)])
  have x: "0 < x"
  proof (rule ccontr)
    assume "\<not> 0 < x"
    then have "x * ?c \<le> 0" using c by (simp add: mult_le_0_iff)
    with assms(2) show False by simp
  qed
  have "1 < x * exp t"
  proof -
    have "x * ?c \<le> x * exp t" using \<open>?c \<le> exp t\<close> x by simp
    with assms(2) show ?thesis by simp
  qed
  then have "exp (- t) < x" by (simp add: exp_minus field_simps)
  then have "ln (exp (- t)) < ln x" by (rule ln_strict_mono) simp
  then show ?thesis by simp
qed

lemma ln_lt_by_cubic:
  fixes t x :: real
  assumes "0 \<le> t" "0 < x" "x < 1 + t + t\<^sup>2 / 2 + t ^ 3 / 6"
  shows "ln x < t"
proof -
  have "x < exp t" using assms(3) exp_ge_cubic [OF assms(1)] by simp
  then have "ln x < ln (exp t)" using assms(2) by (rule ln_strict_mono)
  then show ?thesis by simp
qed

lemma exp_gap:
  fixes l1 l2 d :: real
  assumes "l2 + d \<le> l1"
  shows "exp l2 * (1 + d) \<le> exp l1"
proof -
  have "exp l2 * (1 + d) \<le> exp l2 * exp d"
    by (rule mult_left_mono) (simp_all add: exp_ge_add_one_self)
  also have "\<dots> = exp (l2 + d)" by (simp add: exp_add)
  also have "\<dots> \<le> exp l1" using assms by simp
  finally show ?thesis .
qed

lemma res_less_Inr: "res_less (Inr x) (Inr y) \<longleftrightarrow> x < y"
  by (simp add: res_less_def)

text \<open>Strict decrease of the pressure inside one layer.\<close>

lemma pressure_decreases_layer1:
  assumes "z1 < z2" "z2 < 36151.725" "- (10 ^ 40) \<le> z1"
  shows "res_less (atm_pressure z2 ''ft'' ''psf'') (atm_pressure z1 ''ft'' ''psf'')"
proof -
  have z1: "z1 < 36151.725" using assms by simp
  have lo2: "- (10 ^ 40) \<le> z2" using assms by simp
  have x2: "0 < 1 - 0.0000068634634 * z2" using assms(2) by (simp add: field_simps)
  have "1 - 0.0000068634634 * z2 < 1 - 0.0000068634634 * z1" using assms(1) by simp
  then have "ln (1 - 0.0000068634634 * z2) < ln (1 - 0.0000068634634 * z1)"
    using x2 by (rule ln_strict_mono)
  then show ?thesis
    by (simp add: atm_pressure_layer1 [OF assms(3) z1] atm_pressure_layer1 [OF lo2 assms(2)]
        res_less_Inr)
qed

lemma pressure_decreases_layer2:
  assumes "36151.725 \<le> z1" "z1 < z2" "z2 < 82344.678"
  shows "res_less (atm_pressure z2 ''ft'' ''psf'') (atm_pressure z1 ''ft'' ''psf'')"
proof -
  have a: "36151.725 \<le> z2" "z1 < 82344.678" using assms by simp_all
  show ?thesis
    using assms(2)
    by (simp add: atm_pressure_layer2 [OF assms(1) a(2)] atm_pressure_layer2 [OF a(1) assms(3)]
        res_less_Inr)
qed

lemma pressure_decreases_layer3:
  assumes "82344.678 \<le> z1" "z1 < z2" "z2 < 155347.756"
  shows "res_less (atm_pressure z2 ''ft'' ''psf'') (atm_pressure z1 ''ft'' ''psf'')"
proof -
  have a: "82344.678 \<le> z2" "z1 < 155347.756" using assms by simp_all
  have x1: "0 < 1.0 + 0.00000417276598 * (z1 - 82344.678)"
    using assms(1) by (simp add: field_simps)
  have "1.0 + 0.00000417276598 * (z1 - 82344.678) < 1.0 + 0.00000417276598 * (z2 - 82344.678)"
    using assms(2) by simp
  then have "ln (1.0 + 0.00000417276598 * (z1 - 82344.678))
           < ln (1.0 + 0.00000417276598 * (z2 - 82344.678))"
    using x1 by (rule ln_strict_mono)
  then show ?thesis
    by (simp add: atm_pressure_layer3 [OF assms(1) a(2)] atm_pressure_layer3 [OF a(1) assms(3)]
        res_less_Inr)
qed

lemma pressure_decreases_layer4:
  assumes "155347.756 \<le> z1" "z1 < z2" "z2 < 175346.171"
  shows "res_less (atm_pressure z2 ''ft'' ''psf'') (atm_pressure z1 ''ft'' ''psf'')"
proof -
  have a: "155347.756 \<le> z2" "z1 < 175346.171" using assms by simp_all
  show ?thesis
    using assms(2)
    by (simp add: atm_pressure_layer4 [OF assms(1) a(2)] atm_pressure_layer4 [OF a(1) assms(3)]
        res_less_Inr)
qed

lemma pressure_decreases_layer5:
  assumes "175346.171 \<le> z1" "z1 < z2" "z2 < 249000.304"
  shows "res_less (atm_pressure z2 ''ft'' ''psf'') (atm_pressure z1 ''ft'' ''psf'')"
proof -
  have a: "175346.171 \<le> z2" "z1 < 249000.304" using assms by simp_all
  have x2: "0 < 1.0 - 0.00000412122002 * (z2 - 175346.171)"
    using assms(3) by (simp add: field_simps)
  have "1.0 - 0.00000412122002 * (z2 - 175346.171) < 1.0 - 0.00000412122002 * (z1 - 175346.171)"
    using assms(2) by simp
  then have "ln (1.0 - 0.00000412122002 * (z2 - 175346.171))
           < ln (1.0 - 0.00000412122002 * (z1 - 175346.171))"
    using x2 by (rule ln_strict_mono)
  then show ?thesis
    by (simp add: atm_pressure_layer5 [OF assms(1) a(2)] atm_pressure_layer5 [OF a(1) assms(3)]
        res_less_Inr)
qed

lemma pressure_decreases_layer6:
  assumes "249000.304 \<le> z1" "z1 < z2" "z2 \<le> 10 ^ 7"
  shows "res_less (atm_pressure z2 ''ft'' ''psf'') (atm_pressure z1 ''ft'' ''psf'')"
proof -
  have a: "249000.304 \<le> z2" using assms by simp
  have hi1: "z1 \<le> 10 ^ 7" using assms by simp
  show ?thesis
    using assms(2)
    by (simp add: atm_pressure_layer6 [OF assms(1) hi1] atm_pressure_layer6 [OF a assms(3)]
        res_less_Inr)
qed

lemma density_less:
  assumes "atm_pressure z1 ''ft'' ''psf'' = Inr p1" "atm_temperature z1 ''ft'' ''R'' = Inr t1"
    and "atm_pressure z2 ''ft'' ''psf'' = Inr p2" "atm_temperature z2 ''ft'' ''R'' = Inr t2"
    and "0 < t1" "0 < t2" "p2 * t1 < p1 * t2"
  shows "res_less (atm_density z2 1716 ''ft'' ''slug/ft^3'')
           (atm_density z1 1716 ''ft'' ''slug/ft^3'')"
proof -
  have n1: "1716 * t1 \<noteq> 0" and n2: "1716 * t2 \<noteq> 0" using assms(5,6) by simp_all
  have "p2 / (1716 * t2) < p1 / (1716 * t1)"
    using assms(5,6,7) by (simp add: field_simps)
  then show ?thesis
    by (simp add: atm_density_ft [OF assms(1,2) n1] atm_density_ft [OF assms(3,4) n2]
        res_less_Inr)
qed

lemma density_less_gap:
  assumes "atm_pressure z1 ''ft'' ''psf'' = Inr (exp l1)" "atm_temperature z1 ''ft'' ''R'' = Inr t1"
    and "atm_pressure z2 ''ft'' ''psf'' = Inr (exp l2)" "atm_temperature z2 ''ft'' ''R'' = Inr t2"
    and "0 < t1" "0 < t2" "0 \<le> d" "l2 + d < l1" "t1 \<le> (1 + d) * t2"
  shows "res_less (atm_density z2 1716 ''ft'' ''slug/ft^3'')
           (atm_density z1 1716 ''ft'' ''slug/ft^3'')"
proof -
  have "exp l2 * t1 \<le> exp l2 * ((1 + d) * t2)"
    using assms(9) by (simp add: mult_left_mono)
  also have "\<dots> = (exp l2 * (1 + d)) * t2" by simp
  also have "\<dots> \<le> exp (l2 + d) * t2"
  proof -
    have "exp l2 * (1 + d) \<le> exp (l2 + d)" by (rule exp_gap) simp
    then show ?thesis using assms(6) by (simp add: mult_right_mono)
  qed
  also have "\<dots> < exp l1 * t2" using assms(6,8) by simp
  finally have "exp l2 * t1 < exp l1 * t2" .
  then show ?thesis by (rule density_less [OF assms(1-6)])
qed

lemma ratio_poly:
  fixes x1 x2 A b :: real
  assumes "x2 < x1" "0 \<le> A * (x1 + x2) + b * (x1 * x2)"
  shows "x2\<^sup>2 * (A + b * x1) \<le> x1\<^sup>2 * (A + b * x2)"
proof -
  have "x1\<^sup>2 * (A + b * x2) - x2\<^sup>2 * (A + b * x1) = (x1 - x2) * (A * (x1 + x2) + b * (x1 * x2))"
    by (simp add: algebra_simps power2_eq_square)
  moreover have "0 \<le> (x1 - x2) * (A * (x1 + x2) + b * (x1 * x2))"
    using assms by (simp add: mult_nonneg_nonneg)
  ultimately show ?thesis by simp
qed

lemma power_law_density:
  fixes x1 x2 p t1 t2 c :: real
  assumes "0 < x2" "x2 < x1" "2 < p" "0 < t1" "0 < t2" "x2\<^sup>2 * t1 \<le> x1\<^sup>2 * t2"
  shows "exp (c + p * ln x2) * t1 < exp (c + p * ln x1) * t2"
proof -
  have x1: "0 < x1" using assms(1,2) by simp
  have d: "ln x2 < ln x1" using assms(2,1) by (rule ln_strict_mono)
  have "(p - 2) * (ln x2 - ln x1) < 0"
    using assms(3) d by (simp add: mult_pos_neg)
  then have e: "p * ln x2 - p * ln x1 < 2 * ln x2 - 2 * ln x1" by (simp add: algebra_simps)
  have sq: "exp (2 * ln x2 - 2 * ln x1) = x2\<^sup>2 / x1\<^sup>2"
  proof -
    have "2 * ln x2 - 2 * ln x1 = ln (x2\<^sup>2) - ln (x1\<^sup>2)" by (simp add: ln_realpow)
    also have "\<dots> = ln (x2\<^sup>2 / x1\<^sup>2)"
      using assms(1) x1 by (simp add: ln_div)
    finally show ?thesis using assms(1) x1 by simp
  qed
  have "exp (c + p * ln x2) = exp (c + p * ln x1) * exp (p * ln x2 - p * ln x1)"
    by (simp add: exp_add [symmetric])
  also have "\<dots> < exp (c + p * ln x1) * exp (2 * ln x2 - 2 * ln x1)"
    using e by simp
  finally have "exp (c + p * ln x2) < exp (c + p * ln x1) * (x2\<^sup>2 / x1\<^sup>2)"
    by (simp only: sq)
  then have "exp (c + p * ln x2) * t1 < exp (c + p * ln x1) * (x2\<^sup>2 / x1\<^sup>2) * t1"
    using assms(4) by (rule mult_strict_right_mono)
  also have "\<dots> = exp (c + p * ln x1) * (x2\<^sup>2 * t1 / x1\<^sup>2)" by simp
  also have "\<dots> \<le> exp (c + p * ln x1) * t2"
  proof -
    have "x2\<^sup>2 * t1 / x1\<^sup>2 \<le> t2" using assms(6) x1 by (simp add: field_simps)
    then show ?thesis by (rule mult_left_mono) simp
  qed
  finally show ?thesis .
qed

lemma ratio_poly_scaled:
  fixes x1 x2 A b a t1 t2 :: real
  assumes "0 < a" "a * t1 = A + b * x1" "a * t2 = A + b * x2" "x2 < x1"
    and "0 \<le> A * (x1 + x2) + b * (x1 * x2)"
  shows "x2\<^sup>2 * t1 \<le> x1\<^sup>2 * t2"
proof -
  have "x2\<^sup>2 * (A + b * x1) \<le> x1\<^sup>2 * (A + b * x2)"
    by (rule ratio_poly [OF assms(4,5)])
  then have "a * (x2\<^sup>2 * t1) \<le> a * (x1\<^sup>2 * t2)"
    by (simp add: assms(2,3) [symmetric] mult_ac)
  then show ?thesis using assms(1) by simp
qed

lemma density_decreases_layer1:
  assumes "z1 < z2" "z2 < 36151.725" "- (10 ^ 40) \<le> z1"
  shows "res_less (atm_density z2 1716 ''ft'' ''slug/ft^3'')
           (atm_density z1 1716 ''ft'' ''slug/ft^3'')"
proof -
  define x1 where "x1 = 1 - 0.0000068634634 * z1"
  define x2 where "x2 = 1 - 0.0000068634634 * z2"
  define t1 where "t1 = 518.0 - 0.003559996 * z1"
  define t2 where "t2 = 518.0 - 0.003559996 * z2"
  have z1: "z1 < 36151.725" using assms by simp
  have lo2: "- (10 ^ 40) \<le> z2" using assms by simp
  have x2_lb: "3 / 4 \<le> x2" using assms(2) by (simp add: x2_def field_simps)
  have x21: "x2 < x1" using assms(1) by (simp add: x1_def x2_def)
  have x2_pos: "0 < x2" and x1_pos: "0 < x1" using x2_lb x21 by simp_all
  have t2_pos: "0 < t2" using assms(2) by (simp add: t2_def field_simps)
  have t1_pos: "0 < t1" using z1 by (simp add: t1_def field_simps)
  define X where "X = x1 * x2"
  have prod: "3 / 4 * x1 \<le> X"
    using x2_lb x1_pos by (simp add: X_def)
  have "0 \<le> (- 47219588 / 10000000000000) * (x1 + x2) + (3559996 / 1000000000) * X"
    using prod x21 x1_pos by argo
  then have key: "0 \<le> (- 47219588 / 10000000000000) * (x1 + x2)
                 + (3559996 / 1000000000) * (x1 * x2)"
    by (simp only: X_def)
  have a1: "(68634634 / 10000000000000) * t1 = (- 47219588 / 10000000000000) + (3559996 / 1000000000) * x1"
    by (simp add: t1_def x1_def field_simps)
  have a2: "(68634634 / 10000000000000) * t2 = (- 47219588 / 10000000000000) + (3559996 / 1000000000) * x2"
    by (simp add: t2_def x2_def field_simps)
  have a: "(0::real) < 68634634 / 10000000000000" by simp
  have sq: "x2\<^sup>2 * t1 \<le> x1\<^sup>2 * t2"
    by (rule ratio_poly_scaled [OF a a1 a2 x21 key])
  have p: "(2::real) < 5.2561258" by simp
  have "exp (7.657389 + 5.2561258 * ln x2) * t1 < exp (7.657389 + 5.2561258 * ln x1) * t2"
    by (rule power_law_density [OF x2_pos x21 p t1_pos t2_pos sq])
  then show ?thesis
    using atm_pressure_layer1 [OF assms(3) z1] atm_temperature_layer1 [OF z1]
      atm_pressure_layer1 [OF lo2 assms(2)] atm_temperature_layer1 [OF assms(2)] t1_pos t2_pos
    unfolding x1_def x2_def t1_def t2_def
    by (intro density_less) 
qed

lemma density_decreases_layer2:
  assumes "36151.725 \<le> z1" "z1 < z2" "z2 < 82344.678"
  shows "res_less (atm_density z2 1716 ''ft'' ''slug/ft^3'')
           (atm_density z1 1716 ''ft'' ''slug/ft^3'')"
proof -
  have a: "36151.725 \<le> z2" "z1 < 82344.678" using assms by simp_all
  have t: "(0::real) < 389.988" "(0::real) \<le> 0" "(389.988::real) \<le> (1 + 0) * 389.988"
    by simp_all
  have l: "6.158411 - 0.0000477916918 * (z2 - 36151.725) + 0
         < 6.158411 - 0.0000477916918 * (z1 - 36151.725)"
    using assms(2) by simp
  show ?thesis
    by (rule density_less_gap [OF atm_pressure_layer2 [OF assms(1) a(2)]
          atm_temperature_layer2 [OF assms(1) a(2)] atm_pressure_layer2 [OF a(1) assms(3)]
          atm_temperature_layer2 [OF a(1) assms(3)] t(1) t(1) t(2) l t(3)])
qed

lemma density_decreases_layer3:
  assumes "82344.678 \<le> z1" "z1 < z2" "z2 < 155347.756"
  shows "res_less (atm_density z2 1716 ''ft'' ''slug/ft^3'')
           (atm_density z1 1716 ''ft'' ''slug/ft^3'')"
proof -
  have a: "82344.678 \<le> z2" "z1 < 155347.756" using assms by simp_all
  have t1: "0 < 389.988 + 0.0016273286 * (z1 - 82344.678)"
    using assms(1) by (simp add: field_simps)
  have t2: "0 < 389.988 + 0.0016273286 * (z2 - 82344.678)"
    using a(1) by (simp add: field_simps)
  have t: "389.988 + 0.0016273286 * (z1 - 82344.678)
         \<le> (1 + 0) * (389.988 + 0.0016273286 * (z2 - 82344.678))"
    using assms(2) by simp
  have x1: "0 < 1.0 + 0.00000417276598 * (z1 - 82344.678)"
    using assms(1) by (simp add: field_simps)
  have "1.0 + 0.00000417276598 * (z1 - 82344.678) < 1.0 + 0.00000417276598 * (z2 - 82344.678)"
    using assms(2) by simp
  then have "ln (1.0 + 0.00000417276598 * (z1 - 82344.678))
           < ln (1.0 + 0.00000417276598 * (z2 - 82344.678))"
    using x1 by (rule ln_strict_mono)
  then have l: "3.950775 - 11.3882724 * ln (1.0 + 0.00000417276598 * (z2 - 82344.678)) + 0
              < 3.950775 - 11.3882724 * ln (1.0 + 0.00000417276598 * (z1 - 82344.678))"
    by simp
  have d: "(0::real) \<le> 0" by simp
  show ?thesis
    by (rule density_less_gap [OF atm_pressure_layer3 [OF assms(1) a(2)]
          atm_temperature_layer3 [OF assms(1) a(2)] atm_pressure_layer3 [OF a(1) assms(3)]
          atm_temperature_layer3 [OF a(1) assms(3)] t1 t2 d l t])
qed

lemma density_decreases_layer4:
  assumes "155347.756 \<le> z1" "z1 < z2" "z2 < 175346.171"
  shows "res_less (atm_density z2 1716 ''ft'' ''slug/ft^3'')
           (atm_density z1 1716 ''ft'' ''slug/ft^3'')"
proof -
  have a: "155347.756 \<le> z2" "z1 < 175346.171" using assms by simp_all
  have t: "(0::real) < 508.788" "(0::real) \<le> 0" "(508.788::real) \<le> (1 + 0) * 508.788"
    by simp_all
  have l: "0.922461 - 0.0000362635373 * (z2 - 155347.756) + 0
         < 0.922461 - 0.0000362635373 * (z1 - 155347.756)"
    using assms(2) by simp
  show ?thesis
    by (rule density_less_gap [OF atm_pressure_layer4 [OF assms(1) a(2)]
          atm_temperature_layer4 [OF assms(1) a(2)] atm_pressure_layer4 [OF a(1) assms(3)]
          atm_temperature_layer4 [OF a(1) assms(3)] t(1) t(1) t(2) l t(3)])
qed

lemma density_decreases_layer5:
  assumes "175346.171 \<le> z1" "z1 < z2" "z2 < 249000.304"
  shows "res_less (atm_density z2 1716 ''ft'' ''slug/ft^3'')
           (atm_density z1 1716 ''ft'' ''slug/ft^3'')"
proof -
  define x1 where "x1 = 1.0 - 0.00000412122002 * (z1 - 175346.171)"
  define x2 where "x2 = 1.0 - 0.00000412122002 * (z2 - 175346.171)"
  define t1 where "t1 = 508.788 - 0.0020968273 * (z1 - 175346.171)"
  define t2 where "t2 = 508.788 - 0.0020968273 * (z2 - 175346.171)"
  have a: "175346.171 \<le> z2" "z1 < 249000.304" using assms by simp_all
  have x2_lb: "2 / 3 \<le> x2" using assms(3) by (simp add: x2_def field_simps)
  have x21: "x2 < x1" using assms(2) by (simp add: x1_def x2_def)
  have x2_pos: "0 < x2" and x1_pos: "0 < x1" using x2_lb x21 by simp_all
  have t2_pos: "0 < t2" using assms(3) by (simp add: t2_def field_simps)
  have t1_pos: "0 < t1" using a(2) by (simp add: t1_def field_simps)
  define X where "X = x1 * x2"
  have prod: "2 / 3 * x1 \<le> X"
    using x2_lb x1_pos by (simp add: X_def)
  have "0 \<le> (- 846424 / 100000000000000000) * (x1 + x2) + (20968273 / 10000000000) * X"
    using prod x21 x1_pos by argo
  then have key: "0 \<le> (- 846424 / 100000000000000000) * (x1 + x2)
                 + (20968273 / 10000000000) * (x1 * x2)"
    by (simp only: X_def)
  have a1: "(412122002 / 100000000000000) * t1
          = (- 846424 / 100000000000000000) + (20968273 / 10000000000) * x1"
    by (simp add: t1_def x1_def field_simps)
  have a2: "(412122002 / 100000000000000) * t2
          = (- 846424 / 100000000000000000) + (20968273 / 10000000000) * x2"
    by (simp add: t2_def x2_def field_simps)
  have c: "(0::real) < 412122002 / 100000000000000" by simp
  have sq: "x2\<^sup>2 * t1 \<le> x1\<^sup>2 * t2"
    by (rule ratio_poly_scaled [OF c a1 a2 x21 key])
  have p: "(2::real) < 8.7602095" by simp
  have "exp (0.197235 + 8.7602095 * ln x2) * t1 < exp (0.197235 + 8.7602095 * ln x1) * t2"
    by (rule power_law_density [OF x2_pos x21 p t1_pos t2_pos sq])
  then show ?thesis
    using atm_pressure_layer5 [OF assms(1) a(2)] atm_temperature_layer5 [OF assms(1) a(2)]
      atm_pressure_layer5 [OF a(1) assms(3)] atm_temperature_layer5 [OF a(1) assms(3)]
      t1_pos t2_pos
    unfolding x1_def x2_def t1_def t2_def
    by (intro density_less)
qed

lemma density_decreases_layer6:
  assumes "249000.304 \<le> z1" "z1 < z2" "z2 \<le> 10 ^ 7"
  shows "res_less (atm_density z2 1716 ''ft'' ''slug/ft^3'')
           (atm_density z1 1716 ''ft'' ''slug/ft^3'')"
proof -
  have a: "249000.304 \<le> z2" using assms by simp
  have hi1: "z1 \<le> 10 ^ 7" using assms by simp
  have t: "(0::real) < 354.348" "(0::real) \<le> 0" "(354.348::real) \<le> (1 + 0) * 354.348"
    by simp_all
  have l: "- 2.971785 - 0.000051533546650 * (z2 - 249000.304) + 0
         < - 2.971785 - 0.000051533546650 * (z1 - 249000.304)"
    using assms(2) by simp
  show ?thesis
    by (rule density_less_gap [OF atm_pressure_layer6 [OF assms(1) hi1]
          atm_temperature_layer6 [OF assms(1)] atm_pressure_layer6 [OF a assms(3)]
          atm_temperature_layer6 [OF a] t(1) t(1) t(2) l t(3)])
qed

lemma pair_decreases_gap:
  assumes "atm_pressure z1 ''ft'' ''psf'' = Inr (exp l1)" "atm_temperature z1 ''ft'' ''R'' = Inr t1"
    and "atm_pressure z2 ''ft'' ''psf'' = Inr (exp l2)" "atm_temperature z2 ''ft'' ''R'' = Inr t2"
    and "0 < t1" "0 < t2" "0 \<le> d" "l2 + d < l1" "t1 \<le> (1 + d) * t2"
  shows "res_less (atm_pressure z2 ''ft'' ''psf'') (atm_pressure z1 ''ft'' ''psf'') \<and>
         res_less (atm_density z2 1716 ''ft'' ''slug/ft^3'')
           (atm_density z1 1716 ''ft'' ''slug/ft^3'')"
proof -
  have "l2 < l1" using assms(7,8) by simp
  then have "res_less (atm_pressure z2 ''ft'' ''psf'') (atm_pressure z1 ''ft'' ''psf'')"
    by (simp add: assms(1,3) res_less_Inr)
  moreover have "res_less (atm_density z2 1716 ''ft'' ''slug/ft^3'')
           (atm_density z1 1716 ''ft'' ''slug/ft^3'')"
    by (rule density_less_gap [OF assms])
  ultimately show ?thesis by simp
qed

lemma gap_chain:
  fixes l1 l2 lb ub d :: real
  assumes "l2 \<le> ub" "ub + d \<le> lb" "lb < l1"
  shows "l2 + d < l1"
  using assms by linarith

lemma lower_plus:
  fixes a p L t :: real
  assumes "- t < L" "0 < p"
  shows "a - p * t < a + p * L"
proof -
  have "p * (- t) < p * L" using assms by (rule mult_strict_left_mono)
  then show ?thesis by simp
qed

lemma lower_minus:
  fixes a p L t :: real
  assumes "L < t" "0 < p"
  shows "a - p * t < a - p * L"
proof -
  have "p * L < p * t" using assms by (rule mult_strict_left_mono)
  then show ?thesis by simp
qed

text \<open>The five sample pairs that straddle a layer boundary.\<close>

lemma pair_36000_37000:
  "res_less (atm_pressure 37000 ''ft'' ''psf'') (atm_pressure 36000 ''ft'' ''psf'') \<and>
   res_less (atm_density 37000 1716 ''ft'' ''slug/ft^3'')
     (atm_density 36000 1716 ''ft'' ''slug/ft^3'')"
proof -
  let ?x = "1 - 0.0000068634634 * 36000 :: real"
  have z1: "- (10 ^ 40) \<le> (36000::real)" "(36000::real) < 36151.725" by simp_all
  have z2: "(36151.725::real) \<le> 37000" "(37000::real) < 82344.678" by simp_all
  have "- (29 / 100) < ln ?x"
    by (rule ln_gt_by_cubic) (simp_all add: power2_eq_square power3_eq_cube)
  then have lb: "7.657389 - 5.2561258 * (29 / 100) < 7.657389 + 5.2561258 * ln ?x"
    by (rule lower_plus) simp
  have ub: "6.158411 - 0.0000477916918 * (37000 - 36151.725) + 0
          \<le> 7.657389 - 5.2561258 * (29 / 100 :: real)"
    by simp
  have l: "6.158411 - 0.0000477916918 * (37000 - 36151.725) + 0
         < 7.657389 + 5.2561258 * ln ?x"
    by (rule gap_chain [OF order_refl ub lb])
  have t: "(0::real) < 518.0 - 0.003559996 * 36000" "(0::real) < 389.988" "(0::real) \<le> 0"
    "518.0 - 0.003559996 * 36000 \<le> (1 + 0) * (389.988::real)"
    by simp_all
  show ?thesis
    by (rule pair_decreases_gap [OF atm_pressure_layer1 [OF z1] atm_temperature_layer1 [OF z1(2)]
          atm_pressure_layer2 [OF z2] atm_temperature_layer2 [OF z2] t(1) t(2) t(3) l t(4)])
qed

lemma pair_82000_83000:
  "res_less (atm_pressure 83000 ''ft'' ''psf'') (atm_pressure 82000 ''ft'' ''psf'') \<and>
   res_less (atm_density 83000 1716 ''ft'' ''slug/ft^3'')
     (atm_density 82000 1716 ''ft'' ''slug/ft^3'')"
proof -
  let ?x = "1.0 + 0.00000417276598 * (83000 - 82344.678) :: real"
  have z1: "(36151.725::real) \<le> 82000" "(82000::real) < 82344.678" by simp_all
  have z2: "(82344.678::real) \<le> 83000" "(83000::real) < 155347.756" by simp_all
  have "0 < ln ?x" by (rule ln_gt_zero) simp
  then have "3.950775 - 11.3882724 * ln ?x < 3.950775 - 11.3882724 * 0"
    by (rule lower_minus) simp
  then have ub: "3.950775 - 11.3882724 * ln ?x \<le> 3.950775" by simp
  have lb: "(3.950775::real) + 0 < 6.158411 - 0.0000477916918 * (82000 - 36151.725)"
    by simp
  have l: "3.950775 - 11.3882724 * ln ?x + 0
         < 6.158411 - 0.0000477916918 * (82000 - 36151.725)"
    using ub lb by linarith
  have t: "(0::real) < 389.988" "(0::real) < 389.988 + 0.0016273286 * (83000 - 82344.678)"
    "(0::real) \<le> 0"
    "(389.988::real) \<le> (1 + 0) * (389.988 + 0.0016273286 * (83000 - 82344.678))"
    by simp_all
  show ?thesis
    by (rule pair_decreases_gap [OF atm_pressure_layer2 [OF z1] atm_temperature_layer2 [OF z1]
          atm_pressure_layer3 [OF z2] atm_temperature_layer3 [OF z2] t(1) t(2) t(3) l t(4)])
qed

lemma pair_155000_156000:
  "res_less (atm_pressure 156000 ''ft'' ''psf'') (atm_pressure 155000 ''ft'' ''psf'') \<and>
   res_less (atm_density 156000 1716 ''ft'' ''slug/ft^3'')
     (atm_density 155000 1716 ''ft'' ''slug/ft^3'')"
proof -
  let ?x = "1.0 + 0.00000417276598 * (155000 - 82344.678) :: real"
  have z1: "(82344.678::real) \<le> 155000" "(155000::real) < 155347.756" by simp_all
  have z2: "(155347.756::real) \<le> 156000" "(156000::real) < 175346.171" by simp_all
  have "ln ?x < 266 / 1000"
    by (rule ln_lt_by_cubic) (simp_all add: power2_eq_square power3_eq_cube)
  then have lb: "3.950775 - 11.3882724 * (266 / 1000) < 3.950775 - 11.3882724 * ln ?x"
    by (rule lower_minus) simp
  have ub: "0.922461 - 0.0000362635373 * (156000 - 155347.756) + 0
          \<le> 3.950775 - 11.3882724 * (266 / 1000 :: real)"
    by simp
  have l: "0.922461 - 0.0000362635373 * (156000 - 155347.756) + 0
         < 3.950775 - 11.3882724 * ln ?x"
    by (rule gap_chain [OF order_refl ub lb])
  have t: "(0::real) < 389.988 + 0.0016273286 * (155000 - 82344.678)" "(0::real) < 508.788"
    "(0::real) \<le> 0"
    "389.988 + 0.0016273286 * (155000 - 82344.678) \<le> (1 + 0) * (508.788::real)"
    by simp_all
  show ?thesis
    by (rule pair_decreases_gap [OF atm_pressure_layer3 [OF z1] atm_temperature_layer3 [OF z1]
          atm_pressure_layer4 [OF z2] atm_temperature_layer4 [OF z2] t(1) t(2) t(3) l t(4)])
qed

lemma pair_175000_176000:
  "res_less (atm_pressure 176000 ''ft'' ''psf'') (atm_pressure 175000 ''ft'' ''psf'') \<and>
   res_less (atm_density 176000 1716 ''ft'' ''slug/ft^3'')
     (atm_density 175000 1716 ''ft'' ''slug/ft^3'')"
proof -
  let ?x = "1.0 - 0.00000412122002 * (176000 - 175346.171) :: real"
  have z1: "(155347.756::real) \<le> 175000" "(175000::real) < 175346.171" by simp_all
  have z2: "(175346.171::real) \<le> 176000" "(176000::real) < 249000.304" by simp_all
  have "ln ?x < 0" by (rule ln_less_zero) simp_all
  then have "- 0 < - ln ?x" by simp
  have ub: "0.197235 + 8.7602095 * ln ?x \<le> 0.197235"
    using \<open>ln ?x < 0\<close> by (simp add: mult_le_0_iff)
  have lb: "(0.197235::real) + 125 / 10000
          < 0.922461 - 0.0000362635373 * (175000 - 155347.756)"
    by simp
  have l: "0.197235 + 8.7602095 * ln ?x + 125 / 10000
         < 0.922461 - 0.0000362635373 * (175000 - 155347.756)"
    using ub lb by linarith
  have t: "(0::real) < 508.788" "(0::real) < 508.788 - 0.0020968273 * (176000 - 175346.171)"
    "(0::real) \<le> 125 / 10000"
    "(508.788::real) \<le> (1 + 125 / 10000) * (508.788 - 0.0020968273 * (176000 - 175346.171))"
    by simp_all
  show ?thesis
    by (rule pair_decreases_gap [OF atm_pressure_layer4 [OF z1] atm_temperature_layer4 [OF z1]
          atm_pressure_layer5 [OF z2] atm_temperature_layer5 [OF z2] t(1) t(2) t(3) l t(4)])
qed

lemma pair_249000_250000:
  "res_less (atm_pressure 250000 ''ft'' ''psf'') (atm_pressure 249000 ''ft'' ''psf'') \<and>
   res_less (atm_density 250000 1716 ''ft'' ''slug/ft^3'')
     (atm_density 249000 1716 ''ft'' ''slug/ft^3'')"
proof -
  let ?x = "1.0 - 0.00000412122002 * (249000 - 175346.171) :: real"
  have z1: "(175346.171::real) \<le> 249000" "(249000::real) < 249000.304" by simp_all
  have z2: "(249000.304::real) \<le> 250000" "(250000::real) \<le> 10 ^ 7" by simp_all
  have "- (367 / 1000) < ln ?x"
    by (rule ln_gt_by_cubic) (simp_all add: power2_eq_square power3_eq_cube)
  then have lb: "0.197235 - 8.7602095 * (367 / 1000) < 0.197235 + 8.7602095 * ln ?x"
    by (rule lower_plus) simp
  have ub: "- 2.971785 - 0.000051533546650 * (250000 - 249000.304) + 5 / 1000
          \<le> 0.197235 - 8.7602095 * (367 / 1000 :: real)"
    by simp
  have l: "- 2.971785 - 0.000051533546650 * (250000 - 249000.304) + 5 / 1000
         < 0.197235 + 8.7602095 * ln ?x"
    by (rule gap_chain [OF order_refl ub lb])
  have t: "(0::real) < 508.788 - 0.0020968273 * (249000 - 175346.171)" "(0::real) < 354.348"
    "(0::real) \<le> 5 / 1000"
    "508.788 - 0.0020968273 * (249000 - 175346.171) \<le> (1 + 5 / 1000) * (354.348::real)"
    by simp_all
  show ?thesis
    by (rule pair_decreases_gap [OF atm_pressure_layer5 [OF z1] atm_temperature_layer5 [OF z1]
          atm_pressure_layer6 [OF z2] atm_temperature_layer6 [OF z2(1)] t(1) t(2) t(3) l t(4)])
qed

subsection \<open>The layers at their boundaries\<close>

lemma affine_close_plus:
  fixes a0 p L lo hi b d :: real
  assumes "lo < L" "L < hi" "0 < p" "- d \<le> a0 + p * lo - b" "a0 + p * hi - b \<le> d"
  shows "\<bar>(a0 + p * L) - b\<bar> \<le> d" and "a0 + p * L \<le> a0 + p * hi"
proof -
  have "p * lo < p * L" "p * L < p * hi"
    using assms(1-3) by (simp_all add: mult_strict_left_mono)
  then show "\<bar>(a0 + p * L) - b\<bar> \<le> d" and "a0 + p * L \<le> a0 + p * hi"
    using assms(4,5) by linarith+
qed

lemma affine_close_minus:
  fixes a0 p L lo hi b d :: real
  assumes "lo < L" "L < hi" "0 < p" "- d \<le> a0 - p * hi - b" "a0 - p * lo - b \<le> d"
  shows "\<bar>(a0 - p * L) - b\<bar> \<le> d" and "a0 - p * L \<le> a0 - p * lo"
proof -
  have "p * lo < p * L" "p * L < p * hi"
    using assms(1-3) by (simp_all add: mult_strict_left_mono)
  then show "\<bar>(a0 - p * L) - b\<bar> \<le> d" and "a0 - p * L \<le> a0 - p * lo"
    using assms(4,5) by linarith+
qed

text \<open>Pressure: the closed form of the layer below, taken at the boundary, against the
  value of \<open>atm_pressure\<close> at the boundary.\<close>

lemma pressure_meets_36151:
  "\<exists>v. atm_pressure 36151.725 ''ft'' ''psf'' = Inr v \<and>
       \<bar>exp (7.657389 + 5.2561258 * ln (1 - 0.0000068634634 * 36151.725)) - v\<bar> < 1 / 1000"
proof -
  let ?x = "1 - 0.0000068634634 * 36151.725 :: real"
  have x: "0 < ?x" by simp
  have lo: "- 0.285187 < ln ?x"
    by (rule ln_gt_by_taylor [OF x]) (simp add: taylor8_def power_divide)
  have hi: "ln ?x < - 0.2851865"
    by (rule ln_lt_by_taylor [OF x]) (simp add: taylor8_def power_divide)
  have p: "(0::real) < 5.2561258" by simp
  have c1: "- (2 / 10 ^ 6) \<le> 7.657389 + 5.2561258 * (- 0.285187) - (6.158411::real)" by simp
  have c2: "7.657389 + 5.2561258 * (- 0.2851865) - 6.158411 \<le> (2 / 10 ^ 6 :: real)" by simp
  note ab = affine_close_plus [OF lo hi p c1 c2]
  have am: "7.657389 + 5.2561258 * ln ?x \<le> 8 * 0.7698017"
  proof -
    have "7.657389 + 5.2561258 * (- 0.2851865) \<le> (8 * 0.7698017 :: real)" by simp
    with ab(2) show ?thesis by (rule order_trans)
  qed
  have bm: "(6.158411::real) \<le> 8 * 0.7698017" by simp
  have E: "exp (8 * 0.7698017) \<le> (2.15936::real) ^ 8"
    by (rule exp_8_le) (simp_all add: taylor8_def power_divide)
  have Ed: "(2.15936::real) ^ 8 * (2 / 10 ^ 6) < 1 / 1000" by (simp add: power_divide)
  have close: "\<bar>exp (7.657389 + 5.2561258 * ln ?x) - exp 6.158411\<bar> < 1 / 1000"
    by (rule exp_close [OF ab(1) am bm E Ed])
  have z: "(36151.725::real) \<le> 36151.725" "(36151.725::real) < 82344.678" by simp_all
  have v: "atm_pressure 36151.725 ''ft'' ''psf'' = Inr (exp 6.158411)"
    using atm_pressure_layer2 [OF z] by simp
  from v close show ?thesis by blast
qed

lemma exp_4_le: "exp (8 * 0.5) \<le> (1.65::real) ^ 8"
  by (rule exp_8_le) (simp_all add: taylor8_def power_divide)

lemma exp_1_le: "exp (8 * 0.125) \<le> (1.14::real) ^ 8"
  by (rule exp_8_le) (simp_all add: taylor8_def power_divide)

lemma pressure_meets_82344:
  "\<exists>v. atm_pressure 82344.678 ''ft'' ''psf'' = Inr v \<and>
       \<bar>exp (6.158411 - 0.0000477916918 * (82344.678 - 36151.725)) - v\<bar> < 1 / 1000"
proof -
  have ab: "\<bar>(6.158411 - 0.0000477916918 * (82344.678 - 36151.725)) - 3.950775\<bar>
            \<le> (4 / 10 ^ 6 :: real)"
    by simp
  have am: "6.158411 - 0.0000477916918 * (82344.678 - 36151.725) \<le> (8 * 0.5 :: real)"
    and bm: "(3.950775::real) \<le> 8 * 0.5"
    by simp_all
  have Ed: "(1.65::real) ^ 8 * (4 / 10 ^ 6) < 1 / 1000" by (simp add: power_divide)
  have close: "\<bar>exp (6.158411 - 0.0000477916918 * (82344.678 - 36151.725)) - exp 3.950775\<bar>
               < (1 / 1000 :: real)"
    by (rule exp_close [OF ab am bm exp_4_le Ed])
  have z: "(82344.678::real) \<le> 82344.678" "(82344.678::real) < 155347.756" by simp_all
  have v: "atm_pressure 82344.678 ''ft'' ''psf'' = Inr (exp 3.950775)"
    using atm_pressure_layer3 [OF z] by simp
  from v close show ?thesis by blast
qed

lemma pressure_meets_155347:
  "\<exists>v. atm_pressure 155347.756 ''ft'' ''psf'' = Inr v \<and>
       \<bar>exp (3.950775 - 11.3882724 * ln (1.0 + 0.00000417276598 * (155347.756 - 82344.678)))
        - v\<bar> < 1 / 1000"
proof -
  let ?x = "1.0 + 0.00000417276598 * (155347.756 - 82344.678) :: real"
  have x: "0 < ?x" by simp
  have lo: "0.265915 < ln ?x"
    by (rule ln_gt_by_taylor [OF x]) (simp add: taylor8_def power_divide)
  have hi: "ln ?x < 0.265916"
    by (rule ln_lt_by_taylor [OF x]) (simp add: taylor8_def power_divide)
  have p: "(0::real) < 11.3882724" by simp
  have c1: "- (2 / 10 ^ 5) \<le> 3.950775 - 11.3882724 * 0.265916 - (0.922461::real)" by simp
  have c2: "3.950775 - 11.3882724 * 0.265915 - 0.922461 \<le> (2 / 10 ^ 5 :: real)" by simp
  note ab = affine_close_minus [OF lo hi p c1 c2]
  have am: "3.950775 - 11.3882724 * ln ?x \<le> 8 * 0.125"
  proof -
    have "3.950775 - 11.3882724 * 0.265915 \<le> (8 * 0.125 :: real)" by simp
    with ab(2) show ?thesis by (rule order_trans)
  qed
  have bm: "(0.922461::real) \<le> 8 * 0.125" by simp
  have Ed: "(1.14::real) ^ 8 * (2 / 10 ^ 5) < 1 / 1000" by (simp add: power_divide)
  have close: "\<bar>exp (3.950775 - 11.3882724 * ln ?x) - exp 0.922461\<bar> < 1 / 1000"
    by (rule exp_close [OF ab(1) am bm exp_1_le Ed])
  have z: "(155347.756::real) \<le> 155347.756" "(155347.756::real) < 175346.171" by simp_all
  have v: "atm_pressure 155347.756 ''ft'' ''psf'' = Inr (exp 0.922461)"
    using atm_pressure_layer4 [OF z] by simp
  from v close show ?thesis by blast
qed

lemma pressure_meets_175346:
  "\<exists>v. atm_pressure 175346.171 ''ft'' ''psf'' = Inr v \<and>
       \<bar>exp (0.922461 - 0.0000362635373 * (175346.171 - 155347.756)) - v\<bar> < 1 / 1000"
proof -
  have ab: "\<bar>(0.922461 - 0.0000362635373 * (175346.171 - 155347.756)) - 0.197235\<bar>
            \<le> (2 / 10 ^ 5 :: real)"
    by simp
  have am: "0.922461 - 0.0000362635373 * (175346.171 - 155347.756) \<le> (8 * 0.125 :: real)"
    and bm: "(0.197235::real) \<le> 8 * 0.125"
    by simp_all
  have Ed: "(1.14::real) ^ 8 * (2 / 10 ^ 5) < 1 / 1000" by (simp add: power_divide)
  have close: "\<bar>exp (0.922461 - 0.0000362635373 * (175346.171 - 155347.756)) - exp 0.197235\<bar>
               < (1 / 1000 :: real)"
    by (rule exp_close [OF ab am bm exp_1_le Ed])
  have z: "(175346.171::real) \<le> 175346.171" "(175346.171::real) < 249000.304" by simp_all
  have v: "atm_pressure 175346.171 ''ft'' ''psf'' = Inr (exp 0.197235)"
    using atm_pressure_layer5 [OF z] by simp
  from v close show ?thesis by blast
qed

lemma pressure_meets_249000:
  "\<exists>v. atm_pressure 249000.304 ''ft'' ''psf'' = Inr v \<and>
       \<bar>exp (0.197235 + 8.7602095 * ln (1.0 - 0.00000412122002 * (249000.304 - 175346.171)))
        - v\<bar> < 1 / 1000"
proof -
  let ?x = "1.0 - 0.00000412122002 * (249000.304 - 175346.171) :: real"
  have x: "0 < ?x" by simp
  have lo: "- 0.361753 < ln ?x"
    by (rule ln_gt_by_taylor [OF x]) (simp add: taylor8_def power_divide)
  have hi: "ln ?x < - 0.361751"
    by (rule ln_lt_by_taylor [OF x]) (simp add: taylor8_def power_divide)
  have p: "(0::real) < 8.7602095" by simp
  have c1: "- (2 / 10 ^ 5) \<le> 0.197235 + 8.7602095 * (- 0.361753) - (- 2.971785::real)"
    by simp
  have c2: "0.197235 + 8.7602095 * (- 0.361751) - (- 2.971785) \<le> (2 / 10 ^ 5 :: real)"
    by simp
  note ab = affine_close_plus [OF lo hi p c1 c2]
  have am: "0.197235 + 8.7602095 * ln ?x \<le> 8 * 0.125"
  proof -
    have "0.197235 + 8.7602095 * (- 0.361751) \<le> (8 * 0.125 :: real)" by simp
    with ab(2) show ?thesis by (rule order_trans)
  qed
  have bm: "(- 2.971785::real) \<le> 8 * 0.125" by simp
  have Ed: "(1.14::real) ^ 8 * (2 / 10 ^ 5) < 1 / 1000" by (simp add: power_divide)
  have close: "\<bar>exp (0.197235 + 8.7602095 * ln ?x) - exp (- 2.971785)\<bar> < 1 / 1000"
    by (rule exp_close [OF ab(1) am bm exp_1_le Ed])
  have z: "(249000.304::real) \<le> 249000.304" "(249000.304::real) \<le> 10 ^ 7" by simp_all
  have v: "atm_pressure 249000.304 ''ft'' ''psf'' = Inr (exp (- 2.971785))"
    using atm_pressure_layer6 [OF z] by simp
  from v close show ?thesis by blast
qed

lemma pressure_meets_299515:
  "\<exists>v. atm_pressure 299515.564 ''ft'' ''psf'' = Inr v \<and>
       \<bar>exp (- 2.971785 - 0.000051533546650 * (299515.564 - 249000.304)) - v\<bar> < 1 / 1000"
proof -
  have z: "(249000.304::real) \<le> 299515.564" "(299515.564::real) \<le> 10 ^ 7" by simp_all
  show ?thesis using atm_pressure_layer6 [OF z] by simp
qed

text \<open>Temperature at the second to sixth boundary.\<close>

lemma temperature_meets_elsewhere:
  "atm_temperature 82344.678 ''ft'' ''R'' = Inr 389.988 \<and>
   atm_temperature 155347.756 ''ft'' ''R'' = Inr 508.788 \<and>
   \<bar>389.988 + 0.0016273286 * (155347.756 - 82344.678) - 508.788\<bar> < (1 / 1000 :: real) \<and>
   atm_temperature 175346.171 ''ft'' ''R'' = Inr 508.788 \<and>
   atm_temperature 249000.304 ''ft'' ''R'' = Inr 354.348 \<and>
   \<bar>508.788 - 0.0020968273 * (249000.304 - 175346.171) - 354.348\<bar> < (1 / 1000 :: real) \<and>
   atm_temperature 299515.564 ''ft'' ''R'' = Inr 354.348"
  by (simp add: atm_temperature_def update_alt_ft bind_err_def)

subsection \<open>The loop of the density solver\<close>

text \<open>The loop of \<open>get_alt_for_density\<close> returns after at most 20 iterations.\<close>

lemma get_alt_for_density_loop_count:
  "get_alt_for_density_loop density alt_old alt_final n = Inr (alt, m) \<Longrightarrow>
   n \<le> m \<and> (m \<le> 20 \<or> m = n)"
proof (induction density alt_old alt_final n rule: get_alt_for_density_loop.induct)
  case (1 density alt_old alt_final n)
  note unfold = get_alt_for_density_loop.simps [of density alt_old alt_final n]
  show ?case
  proof (cases "\<bar>alt_final - alt_old\<bar> > 5 \<and> n < 20")
    case False
    with "1.prems" have "m = n" by (simp add: unfold)
    then show ?thesis by simp
  next
    case True
    from "1.prems" True obtain rho1 rho2 m' where
      r1: "atm_density alt_final 1716 ''ft'' ''slug/ft^3'' = Inr rho1" and
      r2: "atm_density (alt_final + 500) 1716 ''ft'' ''slug/ft^3'' = Inr rho2" and
      d: "py_div 500 (rho2 - rho1) = Inr m'" and
      rec: "get_alt_for_density_loop density alt_final (m' * (density - rho1) + alt_final) (n + 1)
            = Inr (alt, m)"
      by (simp add: unfold split: sum.splits)
    have "n + 1 \<le> m \<and> (m \<le> 20 \<or> m = n + 1)"
      using "1.IH" [OF True r1 r2 d rec] .
    with True show ?thesis by auto
  qed
qed

lemma get_alt_for_density_at_most_20:
  assumes "get_alt_for_density_loop density 0 5000 0 = Inr (alt, m)"
  shows "m \<le> 20"
  using get_alt_for_density_loop_count [OF assms] by auto

section \<open>The claims\<close>

text \<open>C1 (the code departs from the claim). The claim says that \<open>atm_unit_reynolds_number\<close> and
  \<open>atm_unit_reynolds_number2\<close> both return a result and that the results agree. The
  compositional function passes its flag \<open>SI\<close> to \<open>_update_alt\<close> as the altitude unit; a
  boolean equals none of the tokens \<^verbatim>\<open>ft\<close>, \<^verbatim>\<open>m\<close>, \<^verbatim>\<open>kft\<close>, so for every altitude, Mach number
  and flag the call raises \<open>RuntimeError\<close> and returns nothing, while the direct function
  returns a number (\<open>unit_reynolds_number2_returns\<close>).\<close>

theorem unit_reynolds_number_always_raises:
  "atm_unit_reynolds_number alt mach SI debug =
     ([], Inl (RuntimeError ''alt_units=%r is not valid; use [ft, m, kft]'' (PyBool SI)))"
  by (simp add: atm_unit_reynolds_number_def update_alt_def)

text \<open>C2 (the code departs from the claim). The claim says that temperature and pressure are
  continuous to within \<open>1e-3\<close> at each of the six layer boundaries. The pressure is
  (lemmas \<open>pressure_meets_36151\<close> to \<open>pressure_meets_299515\<close>), and so is the
  temperature at the second to sixth boundary (\<open>temperature_meets_elsewhere\<close>). At the
  first boundary, 36151.725 ft, the temperature one thousandth of a foot below is
  389.300007166896 and the temperature at the boundary is 389.988: a jump of more than
  0.687 degrees Rankine.\<close>

theorem temperature_jump_at_first_breakpoint:
  "atm_temperature 36151.724 ''ft'' ''R'' = Inr 389.300007166896 \<and>
   atm_temperature 36151.725 ''ft'' ''R'' = Inr 389.988 \<and>
   (389.988 - 389.300007166896 :: real) > 0.687"
  by (simp add: atm_temperature_def update_alt_ft bind_err_def)




text \<open>C4 (the code departs from the claim). The claim says that each of the four solvers runs
  its secant loop and returns the last estimate. \<open>get_alt_for_pressure\<close> and
  \<open>get_alt_for_eas_mach\<close> first call \<^verbatim>\<open>_convert_pressure\<close> and \<^verbatim>\<open>_convert_velocity\<close>,
  names the module does not bind: for every input they raise \<open>NameError\<close> before the loop,
  and so does \<open>get_alt_for_q_mach\<close>, which calls \<open>get_alt_for_pressure\<close>. Only the loop
  of \<open>get_alt_for_density\<close> runs (\<open>get_alt_for_density_at_most_20\<close>).\<close>

theorem solvers_raise_name_error:
  "get_alt_for_pressure pressure pressure_units alt_units =
     ([], Inl (NameError ''_convert_pressure'')) \<and>
   get_alt_for_eas_mach equivalent_airspeed mach velocity_units alt_units =
     ([], Inl (NameError ''_convert_velocity'')) \<and>
   get_alt_for_q_mach 100 0.8 False = ([], Inl (NameError ''_convert_pressure''))"
  by (simp add: get_alt_for_pressure_def get_alt_for_eas_mach_def get_alt_for_q_mach_def
      module_converter_def py_div_def float_result_def bind_err_def power_divide)




text \<open>C6 (the code departs from the claim). The claim says that \<open>get_alt_for_q_mach\<close> returns
  the result of \<open>get_alt_for_pressure\<close> at the pressure \<open>2 * q / (1.4 * mach\<^sup>2)\<close>. It returns
  nothing, for any dynamic pressure, Mach number and flag: \<open>get_alt_for_pressure\<close> looks up
  \<^verbatim>\<open>_convert_pressure\<close>, a name the module does not bind, and raises \<open>NameError\<close>; before
  that call, \<^verbatim>\<open>mach ** 2\<close> raises \<open>OverflowError\<close> when the square leaves the range of the
  doubles, and the division raises \<open>ZeroDivisionError\<close> when the square is zero, which it
  is for a zero Mach number and for a nonzero one whose square underflows.\<close>

theorem q_mach_never_returns:
  "get_alt_for_q_mach q mach SI =
     ([], Inl (if 2 ^ 1024 \<le> mach\<^sup>2 then OverflowError
               else if mach\<^sup>2 \<le> 1 / 2 ^ 1075 then ZeroDivisionError
               else NameError ''_convert_pressure''))"
proof -
  have p: "get_alt_for_pressure p pu au = ([], Inl (NameError ''_convert_pressure''))"
    for p pu au
    by (simp add: get_alt_for_pressure_def module_converter_def)
  have a: "\<bar>mach\<^sup>2\<bar> = mach\<^sup>2" by simp
  consider "2 ^ 1024 \<le> mach\<^sup>2" | "\<not> 2 ^ 1024 \<le> mach\<^sup>2" "mach\<^sup>2 \<le> 1 / 2 ^ 1075"
    | "\<not> 2 ^ 1024 \<le> mach\<^sup>2" "\<not> mach\<^sup>2 \<le> 1 / 2 ^ 1075"
    by blast
  then show ?thesis
  proof cases
    case 1
    then show ?thesis
      by (simp only: get_alt_for_q_mach_def float_result_def a bind_err_def if_True sum.case)
  next
    case 2
    then have "float_result (mach\<^sup>2) = Inr 0"
      by (simp only: float_result_def a if_True if_False)
    with 2 show ?thesis
      by (simp add: get_alt_for_q_mach_def bind_err_def py_div_def)
  next
    case 3
    then have f: "float_result (mach\<^sup>2) = Inr (mach\<^sup>2)"
      by (simp only: float_result_def a if_False)
    have "0 < mach\<^sup>2"
    proof (rule ccontr)
      assume "\<not> 0 < mach\<^sup>2"
      then have "mach\<^sup>2 \<le> 0" by simp
      also have "(0::real) \<le> 1 / 2 ^ 1075" by simp
      finally show False using 3(2) by simp
    qed
    then have "1.4 * mach\<^sup>2 \<noteq> 0" by simp
    with 3 f show ?thesis
      by (simp add: get_alt_for_q_mach_def bind_err_def py_div_def p split: if_splits)
  qed
qed



text \<open>C8: over the altitude samples 0, 1000, ..., 250000 ft, \<open>atm_pressure\<close> and \<open>atm_density\<close>
  (default units, gas constant 1716) return a number at every sample, and for each of the
  250 consecutive pairs the value at the higher altitude is strictly smaller.\<close>

theorem pressure_density_decrease_on_samples:
  assumes "k < 250"
  shows "res_less (atm_pressure (1000 * real (k + 1)) ''ft'' ''psf'')
           (atm_pressure (1000 * real k) ''ft'' ''psf'') \<and>
         res_less (atm_density (1000 * real (k + 1)) 1716 ''ft'' ''slug/ft^3'')
           (atm_density (1000 * real k) 1716 ''ft'' ''slug/ft^3'')"
proof -
  let ?z1 = "1000 * real k" and ?z2 = "1000 * real (k + 1)"
  have lt: "?z1 < ?z2" by simp
  consider "k \<le> 35" | "k = 36" | "37 \<le> k" "k \<le> 81" | "k = 82" | "83 \<le> k" "k \<le> 154"
    | "k = 155" | "156 \<le> k" "k \<le> 174" | "k = 175" | "176 \<le> k" "k \<le> 248" | "k = 249"
    using assms by linarith
  then show ?thesis
  proof cases
    case 1
    then have "real (k + 1) \<le> 36" by simp
    then have hi: "?z2 < 36151.725" by simp
    have "(0::real) \<le> ?z1" by simp
    then have lo: "- (10 ^ 40) \<le> ?z1" by (rule order_trans [rotated]) simp
    show ?thesis
      using pressure_decreases_layer1 [OF lt hi lo] density_decreases_layer1 [OF lt hi lo]
      by simp
  next
    case 2
    then have "?z1 = 36000" "?z2 = 37000" by simp_all
    then show ?thesis using pair_36000_37000 by simp
  next
    case 3
    then have "37 \<le> real k" "real (k + 1) \<le> 82" by simp_all
    then have lo: "36151.725 \<le> ?z1" and hi: "?z2 < 82344.678" by simp_all
    show ?thesis
      using pressure_decreases_layer2 [OF lo lt hi] density_decreases_layer2 [OF lo lt hi]
      by simp
  next
    case 4
    then have "?z1 = 82000" "?z2 = 83000" by simp_all
    then show ?thesis using pair_82000_83000 by simp
  next
    case 5
    then have "83 \<le> real k" "real (k + 1) \<le> 155" by simp_all
    then have lo: "82344.678 \<le> ?z1" and hi: "?z2 < 155347.756" by simp_all
    show ?thesis
      using pressure_decreases_layer3 [OF lo lt hi] density_decreases_layer3 [OF lo lt hi]
      by simp
  next
    case 6
    then have "?z1 = 155000" "?z2 = 156000" by simp_all
    then show ?thesis using pair_155000_156000 by simp
  next
    case 7
    then have "156 \<le> real k" "real (k + 1) \<le> 175" by simp_all
    then have lo: "155347.756 \<le> ?z1" and hi: "?z2 < 175346.171" by simp_all
    show ?thesis
      using pressure_decreases_layer4 [OF lo lt hi] density_decreases_layer4 [OF lo lt hi]
      by simp
  next
    case 8
    then have "?z1 = 175000" "?z2 = 176000" by simp_all
    then show ?thesis using pair_175000_176000 by simp
  next
    case 9
    then have "176 \<le> real k" "real (k + 1) \<le> 249" by simp_all
    then have lo: "175346.171 \<le> ?z1" and hi: "?z2 < 249000.304" by simp_all
    show ?thesis
      using pressure_decreases_layer5 [OF lo lt hi] density_decreases_layer5 [OF lo lt hi]
      by simp
  next
    case 10
    then have "?z1 = 249000" "?z2 = 250000" by simp_all
    then show ?thesis using pair_249000_250000 by simp
  qed
qed

theorem pressure_density_decrease_on_samples_witness:
  "res_less (atm_pressure 37000 ''ft'' ''psf'') (atm_pressure 36000 ''ft'' ''psf'') \<and>
   res_less (atm_density 37000 1716 ''ft'' ''slug/ft^3'')
     (atm_density 36000 1716 ''ft'' ''slug/ft^3'')"
proof -
  have k: "(36::nat) < 250" by simp
  show ?thesis using pressure_density_decrease_on_samples [OF k] by simp
qed

text \<open>C9, as stated, fails: the function raises for a large temperature. At \<open>T = 1e300\<close> the
  warning is written and then \<^verbatim>\<open>T ** 1.5\<close>, which is \<open>1e450\<close>, raises \<open>OverflowError\<close>.\<close>

theorem sutherland_overflows:
  "sutherland_viscoscity (10 ^ 300) = ([ViscosityWarning (10 ^ 300)], Inl OverflowError)"
proof -
  have "((10::real) ^ 300) powr 1.5 = ((10 ^ 150)\<^sup>2) powr 1.5" by simp
  also have "\<dots> = (10 ^ 150) ^ 3" by (rule square_powr_three_halves) simp
  finally have "((10::real) ^ 300) powr 1.5 = 10 ^ 450" by simp
  moreover have "(2::real) ^ 1024 \<le> \<bar>10 ^ 450\<bar>" by simp
  ultimately have "float_result (((10::real) ^ 300) powr 1.5) = Inl OverflowError"
    by (simp only: float_result_def if_True)
  moreover have "\<not> (10::real) ^ 300 < 225" "(10::real) ^ 300 > 5400" by simp_all
  ultimately show ?thesis
    by (simp only: sutherland_viscoscity_def bind_err_def if_True if_False sum.case)
qed

text \<open>C9, amended: \<open>sutherland_viscoscity T\<close> returns \<open>8.0382436e-10 * T\<close> when \<open>T < 225\<close>
  and \<open>2.27e-8 * T powr 1.5 / (T + 198.6)\<close> when \<open>225 \<le> T \<le> 1e200\<close>; in that range,
  above 5400 it writes one warning to the error stream and returns the same value of the
  second formula, and it raises nothing.\<close>

theorem sutherland_viscoscity_branches:
  "(T < 225 \<longrightarrow> sutherland_viscoscity T = ([], Inr (0.00000000080382436 * T))) \<and>
   (225 \<le> T \<and> T \<le> 5400 \<longrightarrow>
      sutherland_viscoscity T = ([], Inr (0.0000000227 * (T powr 1.5) / (T + 198.6)))) \<and>
   (5400 < T \<and> T \<le> 10 ^ 200 \<longrightarrow>
      sutherland_viscoscity T =
        ([ViscosityWarning T], Inr (0.0000000227 * (T powr 1.5) / (T + 198.6))))"
proof -
  have a: "T < 225 \<longrightarrow> sutherland_viscoscity T = ([], Inr (0.00000000080382436 * T))"
    by (simp add: sutherland_viscoscity_def)
  have b: "225 \<le> T \<and> T \<le> 5400 \<longrightarrow>
      sutherland_viscoscity T = ([], Inr (0.0000000227 * (T powr 1.5) / (T + 198.6)))"
  proof
    assume h: "225 \<le> T \<and> T \<le> 5400"
    then have "T \<le> 10 ^ 200" by simp
    then show "sutherland_viscoscity T = ([], Inr (0.0000000227 * (T powr 1.5) / (T + 198.6)))"
      using h sutherland_viscoscity_high [of T] by simp
  qed
  have c: "5400 < T \<and> T \<le> 10 ^ 200 \<longrightarrow>
      sutherland_viscoscity T =
        ([ViscosityWarning T], Inr (0.0000000227 * (T powr 1.5) / (T + 198.6)))"
  proof
    assume h: "5400 < T \<and> T \<le> 10 ^ 200"
    then have "225 \<le> T" by simp
    then show "sutherland_viscoscity T =
        ([ViscosityWarning T], Inr (0.0000000227 * (T powr 1.5) / (T + 198.6)))"
      using h sutherland_viscoscity_high [of T] by simp
  qed
  from a b c show ?thesis by blast
qed

theorem sutherland_viscoscity_branches_witness:
  "sutherland_viscoscity 200 = ([], Inr (0.00000000080382436 * 200)) \<and>
   sutherland_viscoscity 500 = ([], Inr (0.0000000227 * (500 powr 1.5) / (500 + 198.6))) \<and>
   sutherland_viscoscity 6000 =
     ([ViscosityWarning 6000], Inr (0.0000000227 * (6000 powr 1.5) / (6000 + 198.6)))"
  using sutherland_viscoscity_branches [of 200] sutherland_viscoscity_branches [of 500]
    sutherland_viscoscity_branches [of 6000]
  by simp

text \<open>C10, as stated, fails: the call does not return a number for every altitude in feet.
  At \<open>1e8\<close> ft the pressure of the last layer underflows to zero, so the density is zero
  and the quotient \<^verbatim>\<open>mu / rho\<close> raises \<open>ZeroDivisionError\<close>.\<close>

theorem kinematic_viscosity_raises_far_above:
  "atm_kinematic_viscosity_nu (10 ^ 8) ''ft'' ''m^2/s'' False = ([], Inl ZeroDivisionError)"
proof -
  have z: "(249000.304::real) \<le> 10 ^ 8" by simp
  have "- 2.971785 - 0.000051533546650 * (10 ^ 8 - 249000.304) \<le> (- 746::real)" by simp
  then have "exp (- 2.971785 - 0.000051533546650 * (10 ^ 8 - 249000.304)) \<le> (1 / 2 ^ 1075 :: real)"
    by (rule exp_le_tiny)
  then have P: "atm_pressure (10 ^ 8) ''ft'' ''psf'' = Inr 0"
    using atm_pressure_layer6_any [OF z] by simp
  have T: "atm_temperature (10 ^ 8) ''ft'' ''R'' = Inr 354.348"
    by (rule atm_temperature_layer6 [OF z])
  have "(1716::real) * 354.348 \<noteq> 0" by simp
  then have "atm_density (10 ^ 8) 1716 ''ft'' ''slug/ft^3'' = Inr (0 / (1716 * 354.348))"
    by (rule atm_density_ft [OF P T])
  then have rho: "atm_density (10 ^ 8) 1716 ''ft'' ''slug/ft^3'' = Inr 0" by simp
  have t: "(225::real) \<le> 354.348" "(354.348::real) \<le> 10 ^ 200" by simp_all
  have "sutherland_viscoscity 354.348 =
      ([], Inr (0.0000000227 * (354.348 powr 1.5) / (354.348 + 198.6)))"
    using sutherland_viscoscity_high [OF t] by simp
  then have mu: "atm_dynamic_viscosity_mu (10 ^ 8) ''ft'' ''(lbf*s)/ft^2'' =
      ([], Inr (0.0000000227 * (354.348 powr 1.5) / (354.348 + 198.6) * 1))"
    using T by (simp add: atm_dynamic_viscosity_mu_def update_alt_ft)
  show ?thesis
    using rho mu by (simp add: atm_kinematic_viscosity_nu_def update_alt_ft py_div_def)
qed

text \<open>C10, amended: with the altitude in feet, the outcome of \<open>atm_kinematic_viscosity_nu\<close>
  called for \<^verbatim>\<open>m^2/s\<close> is, for every altitude, exactly the outcome of the call for \<^verbatim>\<open>ft^2/s\<close>,
  and for an altitude between \<open>-1e40\<close> and \<open>1e7\<close> ft that outcome is a number: the factor
  applied for \<^verbatim>\<open>m^2/s\<close> is the square of \<open>_feet_to_alt_units\<close> of the altitude unit, which
  is 1 for feet. The unit of the result depends on the altitude unit: with the altitude
  in metres the call for \<^verbatim>\<open>m^2/s\<close> returns the \<^verbatim>\<open>ft^2/s\<close> value times \<open>0.3048\<^sup>2\<close>, and with
  the altitude in thousands of feet it raises \<open>RuntimeError\<close> wherever the call for
  \<^verbatim>\<open>ft^2/s\<close> returns.\<close>

theorem kinematic_viscosity_si_not_applied:
  "atm_kinematic_viscosity_nu alt ''ft'' ''m^2/s'' debug =
     atm_kinematic_viscosity_nu alt ''ft'' ''ft^2/s'' debug \<and>
   (- (10 ^ 40) \<le> alt \<and> alt \<le> 10 ^ 7 \<longrightarrow>
      (\<exists>out nu. atm_kinematic_viscosity_nu alt ''ft'' ''ft^2/s'' debug = (out, Inr nu))) \<and>
   atm_kinematic_viscosity_nu alt ''m'' ''m^2/s'' debug =
     (case atm_kinematic_viscosity_nu alt ''m'' ''ft^2/s'' debug of
        (out, Inl e) \<Rightarrow> (out, Inl e)
      | (out, Inr nu) \<Rightarrow> (out, Inr (nu * 0.3048\<^sup>2))) \<and>
   atm_kinematic_viscosity_nu alt ''kft'' ''m^2/s'' debug =
     (case atm_kinematic_viscosity_nu alt ''kft'' ''ft^2/s'' debug of
        (out, Inl e) \<Rightarrow> (out, Inl e)
      | (out, Inr nu) \<Rightarrow>
          (out, Inl (RuntimeError ''alt_units=%r is not valid; use [ft, m]'' (PyStr ''kft''))))"
proof -
  have ft: "atm_kinematic_viscosity_nu alt ''ft'' ''m^2/s'' debug =
     atm_kinematic_viscosity_nu alt ''ft'' ''ft^2/s'' debug"
    by (simp add: atm_kinematic_viscosity_nu_def feet_to_alt_units_def Let_def
        split: sum.splits prod.splits)
  have num: "\<exists>out nu. atm_kinematic_viscosity_nu alt ''ft'' ''ft^2/s'' debug = (out, Inr nu)"
    if r: "- (10 ^ 40) \<le> alt \<and> alt \<le> 10 ^ 7"
  proof -
    from r have lo: "- (10 ^ 40) \<le> alt" and hi: "alt \<le> 10 ^ 7" by simp_all
    obtain T where T: "atm_temperature alt ''ft'' ''R'' = Inr T" "0 < T"
      using atm_temperature_ft_pos by blast
    obtain P where P: "atm_pressure alt ''ft'' ''psf'' = Inr P" "0 < P"
      using atm_pressure_ft_pos [OF lo hi] by blast
    have "1716 * T \<noteq> 0" using T(2) by simp
    then have rho: "atm_density alt 1716 ''ft'' ''slug/ft^3'' = Inr (P / (1716 * T))"
      by (rule atm_density_ft [OF P(1) T(1)])
    have rho_nz: "P / (1716 * T) \<noteq> 0" using T(2) P(2) by simp
    obtain out mu where
      mu: "atm_dynamic_viscosity_mu alt ''ft'' ''(lbf*s)/ft^2'' = (out, Inr mu)"
      using atm_dynamic_viscosity_mu_ft [OF lo] by blast
    show ?thesis
      using rho rho_nz mu
      by (simp add: atm_kinematic_viscosity_nu_def update_alt_ft py_div_def Let_def)
  qed
  have m: "atm_kinematic_viscosity_nu alt ''m'' ''m^2/s'' debug =
     (case atm_kinematic_viscosity_nu alt ''m'' ''ft^2/s'' debug of
        (out, Inl e) \<Rightarrow> (out, Inl e)
      | (out, Inr nu) \<Rightarrow> (out, Inr (nu * 0.3048\<^sup>2)))"
    by (simp add: atm_kinematic_viscosity_nu_def feet_to_alt_units_def Let_def
        split: sum.splits prod.splits)
  have kft: "atm_kinematic_viscosity_nu alt ''kft'' ''m^2/s'' debug =
     (case atm_kinematic_viscosity_nu alt ''kft'' ''ft^2/s'' debug of
        (out, Inl e) \<Rightarrow> (out, Inl e)
      | (out, Inr nu) \<Rightarrow>
          (out, Inl (RuntimeError ''alt_units=%r is not valid; use [ft, m]'' (PyStr ''kft''))))"
    by (simp add: atm_kinematic_viscosity_nu_def feet_to_alt_units_def Let_def
        split: sum.splits prod.splits)
  from ft num m kft show ?thesis by blast
qed

theorem kinematic_viscosity_si_not_applied_witness:
  "atm_kinematic_viscosity_nu 10000 ''ft'' ''m^2/s'' False =
     atm_kinematic_viscosity_nu 10000 ''ft'' ''ft^2/s'' False \<and>
   (\<exists>out nu. atm_kinematic_viscosity_nu 10000 ''ft'' ''ft^2/s'' False = (out, Inr nu))"
proof -
  have "- (10 ^ 40) \<le> (10000::real) \<and> (10000::real) \<le> 10 ^ 7" by simp
  then show ?thesis
    using kinematic_viscosity_si_not_applied [of 10000 False] by blast
qed

end
